theory Spec2Isabelle
  imports Main "HOL-Library.Sublist"
begin

section \<open>Meta-Forge Generator: a shallow embedding of \<^verbatim>\<open>Meta_Forge_Generator.py\<close>\<close>

text \<open>
  The generator takes a domain specification (a Python \<^verbatim>\<open>Dict[str, Any]\<close>), validates its
  shape, selects an architecture from the hardware, the technical capacity and the request
  for AI nodes, appends an entry to its generation log and lists the files of the forge.

  The embedding keeps Python's dynamic typing: a value is a \<open>pyval\<close>, every key lookup
  that can raise is a branch returning the exception as a value, and the generation log
  is threaded through the methods of \<^verbatim>\<open>MetaForgeGenerator\<close> explicitly. What
  \<^verbatim>\<open>print\<close> writes is not part of the model; the lookups inside a printed f-string are,
  since they can raise.
\<close>

subsection \<open>Python values and exceptions\<close>

text \<open>
  The values a domain specification is built from: \<^verbatim>\<open>None\<close>, booleans, integers, strings,
  lists, and dicts with string keys. A dict is an association list read with \<open>map_of\<close>.
  Floating-point numbers are left out.
\<close>

datatype pyval =
    PNone
  | PBool bool
  | PInt int
  | PStr string
  | PList "pyval list"
  | PDict "(string \<times> pyval) list"

type_synonym pydict = "(string \<times> pyval) list"

text \<open>
  \<^verbatim>\<open>ConstitutionalViolation\<close> is the repository's own exception class and carries its
  message; the other three are the built-in exceptions the lookups of the source raise.
\<close>

datatype error =
    ConstitutionalViolation string
  | KeyError string
  | TypeError
  | AttributeError

text \<open>\<^verbatim>\<open>k in d\<close> for a dict \<open>d\<close>.\<close>

definition has_key :: "pydict \<Rightarrow> string \<Rightarrow> bool" where
  "has_key d k = (map_of d k \<noteq> None)"

text \<open>
  \<^verbatim>\<open>v[k]\<close> with a string key: a dict raises \<^verbatim>\<open>KeyError\<close> on a missing key, and every
  other value raises \<^verbatim>\<open>TypeError\<close> (a string or a list wants an integer index, the rest
  is not subscriptable).
\<close>

fun subscript :: "pyval \<Rightarrow> string \<Rightarrow> error + pyval" where
  "subscript (PDict d) k = (case map_of d k of None \<Rightarrow> Inl (KeyError k) | Some v \<Rightarrow> Inr v)"
| "subscript _ k = Inl TypeError"

text \<open>\<^verbatim>\<open>v[k1][k2]\<close>, evaluated left to right.\<close>

definition subscript2 :: "pyval \<Rightarrow> string \<Rightarrow> string \<Rightarrow> error + pyval" where
  "subscript2 v k1 k2 = (case subscript v k1 of Inl e \<Rightarrow> Inl e | Inr w \<Rightarrow> subscript w k2)"

text \<open>\<^verbatim>\<open>v.get(k, default)\<close>: only a dict has the method.\<close>

fun py_get :: "pyval \<Rightarrow> string \<Rightarrow> pyval \<Rightarrow> error + pyval" where
  "py_get (PDict d) k dflt = Inr (case map_of d k of None \<Rightarrow> dflt | Some v \<Rightarrow> v)"
| "py_get _ k dflt = Inl AttributeError"

text \<open>\<^verbatim>\<open>d.get(k, default)\<close> on a value known to be a dict.\<close>

definition dict_get :: "pydict \<Rightarrow> string \<Rightarrow> pyval \<Rightarrow> pyval" where
  "dict_get d k dflt = (case map_of d k of None \<Rightarrow> dflt | Some v \<Rightarrow> v)"

text \<open>
  \<^verbatim>\<open>k in v\<close> for a string \<open>k\<close>: key membership in a dict, substring test in a string,
  element test in a list, and \<^verbatim>\<open>TypeError\<close> for a value that is not iterable.
\<close>

fun py_contains :: "string \<Rightarrow> pyval \<Rightarrow> error + bool" where
  "py_contains k (PDict d) = Inr (has_key d k)"
| "py_contains k (PStr s) = Inr (sublist k s)"
| "py_contains k (PList xs) = Inr (PStr k \<in> set xs)"
| "py_contains k _ = Inl TypeError"

text \<open>The truth value of a value in a condition.\<close>

fun truthy :: "pyval \<Rightarrow> bool" where
  "truthy PNone = False"
| "truthy (PBool b) = b"
| "truthy (PInt i) = (i \<noteq> 0)"
| "truthy (PStr s) = (s \<noteq> [])"
| "truthy (PList xs) = (xs \<noteq> [])"
| "truthy (PDict d) = (d \<noteq> [])"

text \<open>
  The values that can be a key of a dict lookup: a list or a dict cannot be hashed, and
  \<^verbatim>\<open>d.get(v, default)\<close> raises \<^verbatim>\<open>TypeError\<close> on one.
\<close>

fun hashable :: "pyval \<Rightarrow> bool" where
  "hashable (PList xs) = False"
| "hashable (PDict d) = False"
| "hashable v = True"

text \<open>
  \<^verbatim>\<open>str(v)\<close>, as an f-string applies it: a string is itself, and for every other value
  of \<open>pyval\<close> \<^verbatim>\<open>str\<close> is \<^verbatim>\<open>repr\<close>, Python's built-in, taken as a parameter.
\<close>

fun py_str :: "(pyval \<Rightarrow> string) \<Rightarrow> pyval \<Rightarrow> string" where
  "py_str repr (PStr s) = s"
| "py_str repr v = repr v"

subsection \<open>The classes of the source\<close>

record ForgeGenerationParameters =
  architecture :: string
  memory_limit :: pyval
  enable_dain_generation :: bool
  constitutional_requirements :: pyval
  generation_warnings :: "string list"

record ConstitutionalKernel =
  kernel_path :: string
  rules :: pyval

record MetaForgeGenerator =
  kernel :: ConstitutionalKernel
  generation_log :: "pyval list"

subsection \<open>\<^verbatim>\<open>ConstitutionalKernel.validate_domain_spec\<close>\<close>

text \<open>
  The loop over \<^verbatim>\<open>required_fields\<close>: the first field that is not a key of the
  specification raises.
\<close>

fun check_required_fields :: "string list \<Rightarrow> pydict \<Rightarrow> error + unit" where
  "check_required_fields [] domain_spec = Inr ()"
| "check_required_fields (field # rest) domain_spec =
     (if \<not> has_key domain_spec field
      then Inl (ConstitutionalViolation (''Missing required field: '' @ field))
      else check_required_fields rest domain_spec)"

definition required_fields :: "string list" where
  "required_fields = [''pattern'', ''context'', ''constraints'']"

definition validate_domain_spec :: "ConstitutionalKernel \<Rightarrow> pydict \<Rightarrow> error + bool" where
  "validate_domain_spec self domain_spec =
     (case check_required_fields required_fields domain_spec of
        Inl e \<Rightarrow> Inl e
      | Inr _ \<Rightarrow>
          (case py_contains ''hardware'' (dict_get domain_spec ''constraints'' (PDict [])) of
             Inl e \<Rightarrow> Inl e
           | Inr present \<Rightarrow>
               if \<not> present
               then Inl (ConstitutionalViolation ''Hardware constraints required (Article 0)'')
               else Inr True))"

subsection \<open>\<^verbatim>\<open>MetaForgeGenerator\<close>\<close>

text \<open>\<^verbatim>\<open>__init__\<close>: the generator starts with an empty log.\<close>

definition init_generator :: "ConstitutionalKernel \<Rightarrow> MetaForgeGenerator" where
  "init_generator k = \<lparr>kernel = k, generation_log = []\<rparr>"

text \<open>
  \<^verbatim>\<open>_calculate_memory_limit\<close>: \<^verbatim>\<open>limits.get(hardware_profile, '1G')\<close> on the two-entry
  table. A list or a dict cannot be hashed, so looking one up raises \<^verbatim>\<open>TypeError\<close>.
\<close>

definition limits :: pydict where
  "limits = [(''raspberry_pi'', PStr ''3G''), (''desktop'', PStr ''6G'')]"

fun calculate_memory_limit :: "pyval \<Rightarrow> error + pyval" where
  "calculate_memory_limit (PStr h) = Inr (dict_get limits h (PStr ''1G''))"
| "calculate_memory_limit (PList xs) = Inl TypeError"
| "calculate_memory_limit (PDict d) = Inl TypeError"
| "calculate_memory_limit v = Inr (PStr ''1G'')"

text \<open>
  The expressions \<^verbatim>\<open>process_diagnostic_input\<close> and \<^verbatim>\<open>generate_forge\<close> read their
  input with: \<^verbatim>\<open>d['constraints']['hardware']\<close>,
  \<^verbatim>\<open>d['constraints']['technical_capacity']\<close>,
  \<^verbatim>\<open>d.get('customization_requests', {}).get('wants_ai_nodes', False)\<close> and
  \<^verbatim>\<open>d['context']['domain']\<close>.
\<close>

definition hardware_of :: "pydict \<Rightarrow> error + pyval" where
  "hardware_of d = subscript2 (PDict d) ''constraints'' ''hardware''"

definition tech_capacity_of :: "pydict \<Rightarrow> error + pyval" where
  "tech_capacity_of d = subscript2 (PDict d) ''constraints'' ''technical_capacity''"

definition wants_ai_of :: "pydict \<Rightarrow> error + pyval" where
  "wants_ai_of d =
     py_get (dict_get d ''customization_requests'' (PDict [])) ''wants_ai_nodes'' (PBool False)"

definition domain_of :: "pydict \<Rightarrow> error + pyval" where
  "domain_of d = subscript2 (PDict d) ''context'' ''domain''"

text \<open>The two warnings of the source, as it spells them.\<close>

definition warning_dedicated_hardware :: string where
  "warning_dedicated_hardware =
     ''DAIN generation disabled: Requires dedicated hardware for constitutional compliance''"

definition warning_technical_capacity :: string where
  "warning_technical_capacity =
     ''DAIN generation disabled: Requires advanced technical capacity''"

text \<open>
  The \<^verbatim>\<open>if\<close>/\<^verbatim>\<open>elif\<close> chain on the freshly initialised parameters. \<^verbatim>\<open>x in [a, b]\<close>
  compares with \<^verbatim>\<open>==\<close>, which for a string on the right holds only for that string.
  The first branch calls \<^verbatim>\<open>_calculate_memory_limit\<close>, whose exception would leave
  through this function.
\<close>

definition select_architecture ::
  "pyval \<Rightarrow> pyval \<Rightarrow> pyval \<Rightarrow> ForgeGenerationParameters \<Rightarrow> error + ForgeGenerationParameters"
where
  "select_architecture hardware tech_capacity wants_ai params =
     (if hardware \<in> set [PStr ''raspberry_pi'', PStr ''desktop''] then
        (case calculate_memory_limit hardware of
           Inl e \<Rightarrow> Inl e
         | Inr m \<Rightarrow>
             Inr (params\<lparr>architecture := ''two_node'',
                         memory_limit := m,
                         generation_warnings :=
                           (if truthy wants_ai
                            then generation_warnings params @ [warning_dedicated_hardware]
                            else generation_warnings params)\<rparr>))
      else if hardware \<in> set [PStr ''dedicated'', PStr ''cloud'']
              \<and> tech_capacity = PStr ''advanced'' \<and> truthy wants_ai then
        Inr (params\<lparr>architecture := ''decoupled_dain'',
                    enable_dain_generation := True,
                    memory_limit :=
                      (if hardware = PStr ''dedicated'' then PStr ''4G'' else PStr ''8G'')\<rparr>)
      else if hardware \<in> set [PStr ''dedicated'', PStr ''cloud''] then
        Inr (params\<lparr>architecture := ''decoupled_non_dain'',
                    generation_warnings :=
                      (if truthy wants_ai
                       then generation_warnings params @ [warning_technical_capacity]
                       else generation_warnings params)\<rparr>)
      else Inr params)"

text \<open>The dict appended to the generation log.\<close>

definition log_entry :: "pyval \<Rightarrow> ForgeGenerationParameters \<Rightarrow> pyval" where
  "log_entry domain_name params =
     PDict [(''domain'', domain_name),
            (''architecture'', PStr (architecture params)),
            (''dain_enabled'', PBool (enable_dain_generation params)),
            (''warnings'', PList (map PStr (generation_warnings params)))]"

text \<open>
  \<^verbatim>\<open>process_diagnostic_input\<close>. The three reads come first, in the order of the source,
  then the parameters are initialised (\<open>initial_parameters\<close>) and the branch is taken;
  the entry of the log is built (reading \<^verbatim>\<open>context.domain\<close>) before it is appended, so
  an exception leaves the log as it was.
\<close>

definition initial_parameters :: "pydict \<Rightarrow> ForgeGenerationParameters" where
  "initial_parameters diagnostic_input =
     \<lparr>architecture = ''two_node'',
      memory_limit = PNone,
      enable_dain_generation = False,
      constitutional_requirements =
        dict_get diagnostic_input ''constitutional_requirements'' (PList []),
      generation_warnings = []\<rparr>"

definition process_diagnostic_input ::
  "MetaForgeGenerator \<Rightarrow> pydict
     \<Rightarrow> (error + ForgeGenerationParameters) \<times> MetaForgeGenerator"
where
  "process_diagnostic_input self diagnostic_input =
     (case hardware_of diagnostic_input of
        Inl e \<Rightarrow> (Inl e, self)
      | Inr hardware \<Rightarrow>
     (case tech_capacity_of diagnostic_input of
        Inl e \<Rightarrow> (Inl e, self)
      | Inr tech_capacity \<Rightarrow>
     (case wants_ai_of diagnostic_input of
        Inl e \<Rightarrow> (Inl e, self)
      | Inr wants_ai \<Rightarrow>
     (case select_architecture hardware tech_capacity wants_ai
             (initial_parameters diagnostic_input) of
        Inl e \<Rightarrow> (Inl e, self)
      | Inr params \<Rightarrow>
     (case domain_of diagnostic_input of
        Inl e \<Rightarrow> (Inl e, self)
      | Inr domain_name \<Rightarrow>
          (Inr params,
           self\<lparr>generation_log := generation_log self @ [log_entry domain_name params]\<rparr>))))))"

text \<open>
  \<^verbatim>\<open>_generate_forge_files\<close>: five f-strings, and two more appended for the architecture
  \<^verbatim>\<open>decoupled_dain\<close>. Each f-string is \<^verbatim>\<open>str(domain_name)\<close> followed by fixed text.
\<close>

definition generate_forge_files ::
  "(pyval \<Rightarrow> string) \<Rightarrow> pydict \<Rightarrow> ForgeGenerationParameters \<Rightarrow> error + string list"
where
  "generate_forge_files repr domain_spec params =
     (case domain_of domain_spec of
        Inl e \<Rightarrow> Inl e
      | Inr domain_name \<Rightarrow>
          (let files =
             [py_str repr domain_name @ ''/kernel.yml -> Constitutional kernel (git submodule)'',
              py_str repr domain_name @ ''/domain_config.json -> Domain-specific configuration'',
              py_str repr domain_name @ ''/docker-compose.yml -> Deployment configuration'',
              py_str repr domain_name @ ''/constitutional_linter.py -> Rule enforcement system'',
              py_str repr domain_name @ ''/README.md -> Usage instructions'']
           in Inr (if architecture params = ''decoupled_dain''
                   then (files
                         @ [py_str repr domain_name @ ''/docker-compose.dain.yml -> AI node deployment''])
                         @ [py_str repr domain_name @ ''/dain_c_agent.py -> Constitutional audit AI'']
                   else files)))"

text \<open>
  \<^verbatim>\<open>generate_forge\<close>. Its first statement prints an f-string that reads
  \<^verbatim>\<open>domain_spec['context']['domain']\<close>, before the validation; then come the validation,
  the processing, and the dict of the result, whose values are evaluated in the order
  they are written.
\<close>

definition generate_forge ::
  "(pyval \<Rightarrow> string) \<Rightarrow> MetaForgeGenerator \<Rightarrow> pydict
     \<Rightarrow> (error + pyval) \<times> MetaForgeGenerator"
where
  "generate_forge repr self domain_spec =
     (case domain_of domain_spec of
        Inl e \<Rightarrow> (Inl e, self)
      | Inr printed \<Rightarrow>
     (case validate_domain_spec (kernel self) domain_spec of
        Inl e \<Rightarrow> (Inl e, self)
      | Inr _ \<Rightarrow>
     (case process_diagnostic_input self domain_spec of
        (Inl e, self') \<Rightarrow> (Inl e, self')
      | (Inr params, self') \<Rightarrow>
     (case domain_of domain_spec of
        Inl e \<Rightarrow> (Inl e, self')
      | Inr domain_name \<Rightarrow>
     (case generate_forge_files repr domain_spec params of
        Inl e \<Rightarrow> (Inl e, self')
      | Inr files \<Rightarrow>
          (Inr (PDict
             [(''domain'', domain_name),
              (''generated_date'', PStr ''2024-01-15''),
              (''architecture'', PStr (architecture params)),
              (''constitutional_compliance'', PStr ''verified''),
              (''files_generated'', PList (map PStr files)),
              (''success_metrics'', dict_get domain_spec ''success_metrics'' (PList [])),
              (''warnings'', PList (map PStr (generation_warnings params)))]),
           self'))))))"

text \<open>
  A sequence of calls of \<^verbatim>\<open>process_diagnostic_input\<close> on one generator, each call
  starting from the state the previous one left.
\<close>

fun process_all :: "MetaForgeGenerator \<Rightarrow> pydict list \<Rightarrow> MetaForgeGenerator" where
  "process_all self [] = self"
| "process_all self (d # ds) = process_all (snd (process_diagnostic_input self d)) ds"

subsection \<open>Concrete inputs\<close>

text \<open>
  The demonstration input of the source's main block, and the inputs the statements below
  are evaluated at: a specification with the given hardware, technical capacity and request
  for AI nodes (and, for \<open>named_spec\<close>, the given domain name), the demonstration input
  without its \<^verbatim>\<open>context\<close> or without its \<^verbatim>\<open>customization_requests\<close>, and
  specifications whose \<^verbatim>\<open>constraints\<close> carry only the hardware, or only the technical
  capacity.
\<close>

definition skyrim_spec :: pydict where
  "skyrim_spec =
     [(''pattern'', PDict [(''name'', PStr ''compatibility_management'')]),
      (''context'', PDict [(''domain'', PStr ''skyrim_modding_ecosystem'')]),
      (''constraints'', PDict [(''hardware'', PStr ''desktop''),
                              (''technical_capacity'', PStr ''basic'')]),
      (''customization_requests'', PDict [(''wants_ai_nodes'', PBool False)])]"

definition example_spec :: "string \<Rightarrow> string \<Rightarrow> bool \<Rightarrow> pydict" where
  "example_spec hardware capacity wants_ai =
     [(''pattern'', PDict [(''name'', PStr ''compatibility_management'')]),
      (''context'', PDict [(''domain'', PStr ''skyrim_modding_ecosystem'')]),
      (''constraints'', PDict [(''hardware'', PStr hardware),
                              (''technical_capacity'', PStr capacity)]),
      (''customization_requests'', PDict [(''wants_ai_nodes'', PBool wants_ai)])]"

definition spec_without_context :: pydict where
  "spec_without_context =
     [(''pattern'', PDict [(''name'', PStr ''compatibility_management'')]),
      (''constraints'', PDict [(''hardware'', PStr ''desktop''),
                              (''technical_capacity'', PStr ''basic'')])]"

definition spec_without_capacity :: pydict where
  "spec_without_capacity =
     [(''pattern'', PDict [(''name'', PStr ''compatibility_management'')]),
      (''context'', PDict [(''domain'', PStr ''skyrim_modding_ecosystem'')]),
      (''constraints'', PDict [(''hardware'', PStr ''desktop'')])]"

definition spec_without_hardware :: pydict where
  "spec_without_hardware =
     [(''pattern'', PDict [(''name'', PStr ''compatibility_management'')]),
      (''context'', PDict [(''domain'', PStr ''skyrim_modding_ecosystem'')]),
      (''constraints'', PDict [(''technical_capacity'', PStr ''basic'')])]"

definition named_spec :: "string \<Rightarrow> string \<Rightarrow> string \<Rightarrow> bool \<Rightarrow> pydict" where
  "named_spec name hardware capacity wants_ai =
     [(''pattern'', PDict [(''name'', PStr ''compatibility_management'')]),
      (''context'', PDict [(''domain'', PStr name)]),
      (''constraints'', PDict [(''hardware'', PStr hardware),
                              (''technical_capacity'', PStr capacity)]),
      (''customization_requests'', PDict [(''wants_ai_nodes'', PBool wants_ai)])]"

definition spec_without_requests :: pydict where
  "spec_without_requests =
     [(''pattern'', PDict [(''name'', PStr ''compatibility_management'')]),
      (''context'', PDict [(''domain'', PStr ''skyrim_modding_ecosystem'')]),
      (''constraints'', PDict [(''hardware'', PStr ''desktop''),
                              (''technical_capacity'', PStr ''basic'')])]"

definition example_kernel :: ConstitutionalKernel where
  "example_kernel = \<lparr>kernel_path = ''kernel.yml'', rules = PDict []\<rparr>"

subsection \<open>The shape of a domain specification\<close>

text \<open>
  The predicates the statements below use to say which fields a specification carries.
  \<open>field_is_mapping d f\<close>: the field \<open>f\<close>, when \<open>d\<close> has it, holds a dict.
  \<open>field_has_key d f k\<close>: \<open>d\<close> has the field \<open>f\<close>, it holds a dict, and \<open>k\<close> is
  one of its keys.
\<close>

fun is_dict :: "pyval \<Rightarrow> bool" where
  "is_dict (PDict d) = True"
| "is_dict _ = False"

definition field_is_mapping :: "pydict \<Rightarrow> string \<Rightarrow> bool" where
  "field_is_mapping d f = (case map_of d f of None \<Rightarrow> True | Some v \<Rightarrow> is_dict v)"

definition field_has_key :: "pydict \<Rightarrow> string \<Rightarrow> string \<Rightarrow> bool" where
  "field_has_key d f k =
     (case map_of d f of Some (PDict m) \<Rightarrow> has_key m k | _ \<Rightarrow> False)"

section \<open>Properties\<close>

subsection \<open>Lookups\<close>

lemma domain_of_mapping:
  assumes "field_is_mapping d ''context''" and "has_key d ''context''"
  shows "domain_of d =
           (if field_has_key d ''context'' ''domain''
            then Inr (the (case map_of d ''context'' of Some (PDict m) \<Rightarrow> map_of m ''domain'' | _ \<Rightarrow> None))
            else Inl (KeyError ''domain''))"
  using assms
  by (auto simp: field_is_mapping_def has_key_def field_has_key_def domain_of_def subscript2_def
           split: option.splits pyval.splits)

lemma domain_of_missing_context:
  "\<not> has_key d ''context'' \<Longrightarrow> domain_of d = Inl (KeyError ''context'')"
  by (simp add: has_key_def domain_of_def subscript2_def)

lemma hardware_of_present:
  assumes "field_has_key d ''constraints'' ''hardware''"
  shows "\<exists>h. hardware_of d = Inr h"
  using assms
  by (auto simp: has_key_def field_has_key_def hardware_of_def subscript2_def
           split: option.splits pyval.splits)

lemma tech_capacity_of_missing:
  assumes "field_is_mapping d ''constraints''" and "has_key d ''constraints''"
    and "\<not> field_has_key d ''constraints'' ''technical_capacity''"
  shows "tech_capacity_of d = Inl (KeyError ''technical_capacity'')"
  using assms
  by (auto simp: field_is_mapping_def has_key_def field_has_key_def tech_capacity_of_def
                 subscript2_def
           split: option.splits pyval.splits)

subsection \<open>Validation\<close>

lemma check_required_fields_three:
  "check_required_fields required_fields d =
     (if \<not> has_key d ''pattern''
        then Inl (ConstitutionalViolation ''Missing required field: pattern'')
      else if \<not> has_key d ''context''
        then Inl (ConstitutionalViolation ''Missing required field: context'')
      else if \<not> has_key d ''constraints''
        then Inl (ConstitutionalViolation ''Missing required field: constraints'')
      else Inr ())"
  by (simp add: required_fields_def)

lemma hardware_check_mapping:
  assumes "field_is_mapping d ''constraints''" and "has_key d ''constraints''"
  shows "py_contains ''hardware'' (dict_get d ''constraints'' (PDict [])) =
           Inr (field_has_key d ''constraints'' ''hardware'')"
  using assms
  by (auto simp: field_is_mapping_def has_key_def dict_get_def field_has_key_def
           split: option.splits pyval.splits)

lemma validate_domain_spec_mapping:
  assumes "field_is_mapping d ''constraints''"
  shows "validate_domain_spec k d =
           (if \<not> has_key d ''pattern''
              then Inl (ConstitutionalViolation ''Missing required field: pattern'')
            else if \<not> has_key d ''context''
              then Inl (ConstitutionalViolation ''Missing required field: context'')
            else if \<not> has_key d ''constraints''
              then Inl (ConstitutionalViolation ''Missing required field: constraints'')
            else if \<not> field_has_key d ''constraints'' ''hardware''
              then Inl (ConstitutionalViolation ''Hardware constraints required (Article 0)'')
            else Inr True)"
  unfolding validate_domain_spec_def check_required_fields_three
  using hardware_check_mapping [OF assms]
  by simp

lemma validate_domain_spec_passes:
  assumes "field_is_mapping d ''constraints''" and "validate_domain_spec k d = Inr True"
  shows "has_key d ''pattern''" and "has_key d ''context''" and "has_key d ''constraints''"
    and "field_has_key d ''constraints'' ''hardware''"
  using assms(2) unfolding validate_domain_spec_mapping [OF assms(1)]
  by (simp_all split: if_splits)

text \<open>
  Claim C2. For every domain specification whose \<^verbatim>\<open>constraints\<close>, when present, is a
  mapping, \<^verbatim>\<open>validate_domain_spec\<close> checks \<^verbatim>\<open>pattern\<close>, \<^verbatim>\<open>context\<close>,
  \<^verbatim>\<open>constraints\<close> and then \<^verbatim>\<open>constraints.hardware\<close>, in this order, and raises
  \<^verbatim>\<open>ConstitutionalViolation\<close> for the first one that is missing, with the message of
  that field alone (\<^verbatim>\<open>Missing required field: <field>\<close> for the three top-level fields,
  \<^verbatim>\<open>Hardware constraints required (Article 0)\<close> for the hardware). It returns
  \<^verbatim>\<open>True\<close> if and only if all four are present.
\<close>

theorem validate_domain_spec_first_missing_field:
  assumes "field_is_mapping domain_spec ''constraints''"
  shows "validate_domain_spec self domain_spec =
           (if \<not> has_key domain_spec ''pattern''
              then Inl (ConstitutionalViolation ''Missing required field: pattern'')
            else if \<not> has_key domain_spec ''context''
              then Inl (ConstitutionalViolation ''Missing required field: context'')
            else if \<not> has_key domain_spec ''constraints''
              then Inl (ConstitutionalViolation ''Missing required field: constraints'')
            else if \<not> field_has_key domain_spec ''constraints'' ''hardware''
              then Inl (ConstitutionalViolation ''Hardware constraints required (Article 0)'')
            else Inr True)
       \<and> (validate_domain_spec self domain_spec = Inr True \<longleftrightarrow>
            has_key domain_spec ''pattern'' \<and> has_key domain_spec ''context''
            \<and> has_key domain_spec ''constraints''
            \<and> field_has_key domain_spec ''constraints'' ''hardware'')"
  unfolding validate_domain_spec_mapping [OF assms] by simp

text \<open>The concrete inputs have the shape the statements ask for.\<close>

lemma example_specs_shape:
  "field_is_mapping skyrim_spec ''constraints''"
  "field_is_mapping spec_without_context ''constraints''"
  "field_is_mapping spec_without_hardware ''constraints''"
  "field_is_mapping spec_without_capacity ''constraints''"
  "field_is_mapping spec_without_capacity ''context''"
  by (simp_all add: field_is_mapping_def skyrim_spec_def spec_without_context_def
        spec_without_hardware_def spec_without_capacity_def)

theorem validate_domain_spec_first_missing_field_witness:
  "field_is_mapping skyrim_spec ''constraints''
   \<and> validate_domain_spec example_kernel skyrim_spec = Inr True
   \<and> field_is_mapping spec_without_context ''constraints''
   \<and> validate_domain_spec example_kernel spec_without_context =
       Inl (ConstitutionalViolation ''Missing required field: context'')
   \<and> field_is_mapping spec_without_hardware ''constraints''
   \<and> validate_domain_spec example_kernel spec_without_hardware =
       Inl (ConstitutionalViolation ''Hardware constraints required (Article 0)'')"
proof -
  have a: "validate_domain_spec example_kernel skyrim_spec = Inr True"
    using validate_domain_spec_first_missing_field
            [OF example_specs_shape(1), of example_kernel]
    by (simp add: skyrim_spec_def has_key_def field_has_key_def)
  have b: "validate_domain_spec example_kernel spec_without_context =
             Inl (ConstitutionalViolation ''Missing required field: context'')"
    using validate_domain_spec_first_missing_field
            [OF example_specs_shape(2), of example_kernel]
    by (simp add: spec_without_context_def has_key_def field_has_key_def)
  have c: "validate_domain_spec example_kernel spec_without_hardware =
             Inl (ConstitutionalViolation ''Hardware constraints required (Article 0)'')"
    using validate_domain_spec_first_missing_field
            [OF example_specs_shape(3), of example_kernel]
    by (simp add: spec_without_hardware_def has_key_def field_has_key_def)
  from a b c example_specs_shape(1,2,3) show ?thesis by simp
qed

subsection \<open>The decision table\<close>

lemma calculate_memory_limit_table:
  "calculate_memory_limit (PStr ''raspberry_pi'') = Inr (PStr ''3G'')"
  "calculate_memory_limit (PStr ''desktop'') = Inr (PStr ''6G'')"
  "other \<noteq> ''raspberry_pi'' \<Longrightarrow> other \<noteq> ''desktop'' \<Longrightarrow>
     calculate_memory_limit (PStr other) = Inr (PStr ''1G'')"
  by (simp_all add: limits_def dict_get_def)

lemma select_raspberry_pi:
  "select_architecture (PStr ''raspberry_pi'') t w p0 =
     Inr (p0\<lparr>architecture := ''two_node'', memory_limit := PStr ''3G'',
              generation_warnings :=
                (if truthy w then generation_warnings p0 @ [warning_dedicated_hardware]
                 else generation_warnings p0)\<rparr>)"
  by (simp add: select_architecture_def limits_def dict_get_def)

lemma select_desktop:
  "select_architecture (PStr ''desktop'') t w p0 =
     Inr (p0\<lparr>architecture := ''two_node'', memory_limit := PStr ''6G'',
              generation_warnings :=
                (if truthy w then generation_warnings p0 @ [warning_dedicated_hardware]
                 else generation_warnings p0)\<rparr>)"
  by (simp add: select_architecture_def limits_def dict_get_def)

lemma select_dedicated:
  "select_architecture (PStr ''dedicated'') t w p0 =
     (if t = PStr ''advanced'' \<and> truthy w
      then Inr (p0\<lparr>architecture := ''decoupled_dain'', enable_dain_generation := True,
                    memory_limit := PStr ''4G''\<rparr>)
      else Inr (p0\<lparr>architecture := ''decoupled_non_dain'',
                    generation_warnings :=
                      (if truthy w then generation_warnings p0 @ [warning_technical_capacity]
                       else generation_warnings p0)\<rparr>))"
  by (simp add: select_architecture_def)

lemma select_cloud:
  "select_architecture (PStr ''cloud'') t w p0 =
     (if t = PStr ''advanced'' \<and> truthy w
      then Inr (p0\<lparr>architecture := ''decoupled_dain'', enable_dain_generation := True,
                    memory_limit := PStr ''8G''\<rparr>)
      else Inr (p0\<lparr>architecture := ''decoupled_non_dain'',
                    generation_warnings :=
                      (if truthy w then generation_warnings p0 @ [warning_technical_capacity]
                       else generation_warnings p0)\<rparr>))"
  by (simp add: select_architecture_def)

lemma select_unknown:
  assumes "h \<noteq> PStr ''raspberry_pi''" and "h \<noteq> PStr ''desktop''"
    and "h \<noteq> PStr ''dedicated''" and "h \<noteq> PStr ''cloud''"
  shows "select_architecture h t w p0 = Inr p0"
  using assms by (simp add: select_architecture_def)

lemma select_architecture_dain_iff:
  assumes sel: "select_architecture h t w p0 = Inr p"
    and p0: "enable_dain_generation p0 = False" "architecture p0 = ''two_node''"
  shows "enable_dain_generation p \<longleftrightarrow> architecture p = ''decoupled_dain''"
proof -
  consider "h = PStr ''raspberry_pi''" | "h = PStr ''desktop''" | "h = PStr ''dedicated''"
    | "h = PStr ''cloud''"
    | "h \<noteq> PStr ''raspberry_pi''" "h \<noteq> PStr ''desktop''" "h \<noteq> PStr ''dedicated''"
      "h \<noteq> PStr ''cloud''"
    by blast
  then show ?thesis
  proof cases
    case 1
    with sel p0 show ?thesis by (auto simp: select_raspberry_pi)
  next
    case 2
    with sel p0 show ?thesis by (auto simp: select_desktop)
  next
    case 3
    with sel p0 show ?thesis by (auto simp: select_dedicated split: if_splits)
  next
    case 4
    with sel p0 show ?thesis by (auto simp: select_cloud split: if_splits)
  next
    case 5
    with sel p0 show ?thesis by (simp add: select_unknown)
  qed
qed

subsection \<open>\<^verbatim>\<open>process_diagnostic_input\<close>\<close>

lemma process_diagnostic_input_success:
  assumes "hardware_of d = Inr h" and "tech_capacity_of d = Inr t" and "wants_ai_of d = Inr w"
    and "select_architecture h t w (initial_parameters d) = Inr p"
    and "domain_of d = Inr n"
  shows "process_diagnostic_input self d =
           (Inr p, self\<lparr>generation_log := generation_log self @ [log_entry n p]\<rparr>)"
  using assms by (simp add: process_diagnostic_input_def)

lemma process_diagnostic_input_cases:
  "(\<exists>e. process_diagnostic_input self d = (Inl e, self)) \<or>
   (\<exists>h t w p n. hardware_of d = Inr h \<and> tech_capacity_of d = Inr t \<and> wants_ai_of d = Inr w
       \<and> select_architecture h t w (initial_parameters d) = Inr p \<and> domain_of d = Inr n
       \<and> process_diagnostic_input self d =
           (Inr p, self\<lparr>generation_log := generation_log self @ [log_entry n p]\<rparr>))"
  by (simp add: process_diagnostic_input_def split: sum.splits)

lemma process_diagnostic_input_no_capacity:
  assumes "hardware_of d = Inr h" and "tech_capacity_of d = Inl e"
  shows "process_diagnostic_input self d = (Inl e, self)"
  using assms by (simp add: process_diagnostic_input_def)

text \<open>
  Claim C10. Whenever \<^verbatim>\<open>process_diagnostic_input\<close> returns parameters,
  \<^verbatim>\<open>enable_dain_generation\<close> is true if and only if the architecture is
  \<^verbatim>\<open>decoupled_dain\<close>.
\<close>

theorem dain_enabled_iff_decoupled_dain:
  assumes "process_diagnostic_input self d = (Inr p, self')"
  shows "enable_dain_generation p \<longleftrightarrow> architecture p = ''decoupled_dain''"
proof -
  from process_diagnostic_input_cases [of self d] assms
  obtain h t w where sel: "select_architecture h t w (initial_parameters d) = Inr p"
    by auto
  show ?thesis
    by (rule select_architecture_dain_iff [OF sel]) (simp_all add: initial_parameters_def)
qed

lemma example_spec_reads:
  "hardware_of (example_spec h c a) = Inr (PStr h)"
  "tech_capacity_of (example_spec h c a) = Inr (PStr c)"
  "wants_ai_of (example_spec h c a) = Inr (PBool a)"
  "domain_of (example_spec h c a) = Inr (PStr ''skyrim_modding_ecosystem'')"
  "dict_get (example_spec h c a) ''constitutional_requirements'' (PList []) = PList []"
  by (simp_all add: example_spec_def hardware_of_def tech_capacity_of_def wants_ai_of_def
        domain_of_def subscript2_def dict_get_def)

theorem dain_enabled_iff_decoupled_dain_witness:
  "process_diagnostic_input (init_generator example_kernel)
       (example_spec ''cloud'' ''advanced'' True) =
     (Inr \<lparr>architecture = ''decoupled_dain'', memory_limit = PStr ''8G'',
           enable_dain_generation = True, constitutional_requirements = PList [],
           generation_warnings = []\<rparr>,
      \<lparr>kernel = example_kernel,
       generation_log =
         [PDict [(''domain'', PStr ''skyrim_modding_ecosystem''),
                 (''architecture'', PStr ''decoupled_dain''),
                 (''dain_enabled'', PBool True),
                 (''warnings'', PList [])]]\<rparr>)
   \<and> (enable_dain_generation
         \<lparr>architecture = ''decoupled_dain'', memory_limit = PStr ''8G'',
          enable_dain_generation = True, constitutional_requirements = PList [],
          generation_warnings = []\<rparr>
       \<longleftrightarrow> architecture
         \<lparr>architecture = ''decoupled_dain'', memory_limit = PStr ''8G'',
          enable_dain_generation = True, constitutional_requirements = PList [],
          generation_warnings = []\<rparr> = ''decoupled_dain'')"
proof -
  have run: "process_diagnostic_input (init_generator example_kernel)
       (example_spec ''cloud'' ''advanced'' True) =
     (Inr \<lparr>architecture = ''decoupled_dain'', memory_limit = PStr ''8G'',
           enable_dain_generation = True, constitutional_requirements = PList [],
           generation_warnings = []\<rparr>,
      \<lparr>kernel = example_kernel,
       generation_log =
         [PDict [(''domain'', PStr ''skyrim_modding_ecosystem''),
                 (''architecture'', PStr ''decoupled_dain''),
                 (''dain_enabled'', PBool True),
                 (''warnings'', PList [])]]\<rparr>)"
    by (simp add: process_diagnostic_input_def example_spec_reads select_cloud
          initial_parameters_def log_entry_def init_generator_def)
  from dain_enabled_iff_decoupled_dain [OF run] run show ?thesis by simp
qed

text \<open>
  Claim C4. For every domain specification whose hardware is \<^verbatim>\<open>dedicated\<close> or
  \<^verbatim>\<open>cloud\<close>, whose technical capacity is \<^verbatim>\<open>advanced\<close> and whose
  \<^verbatim>\<open>wants_ai_nodes\<close> is true (and which carries \<^verbatim>\<open>context.domain\<close>, as the log entry
  needs), \<^verbatim>\<open>process_diagnostic_input\<close> returns the architecture \<^verbatim>\<open>decoupled_dain\<close>,
  \<^verbatim>\<open>enable_dain_generation\<close> true, the memory limit \<^verbatim>\<open>4G\<close> for \<^verbatim>\<open>dedicated\<close> and
  \<^verbatim>\<open>8G\<close> for \<^verbatim>\<open>cloud\<close>, and no warnings.
\<close>

theorem plan_decoupled_dain:
  assumes "hardware_of d = Inr (PStr h)" and "h = ''dedicated'' \<or> h = ''cloud''"
    and "tech_capacity_of d = Inr (PStr ''advanced'')"
    and "wants_ai_of d = Inr w" and "truthy w"
    and "domain_of d = Inr n"
  shows "fst (process_diagnostic_input self d) =
           Inr \<lparr>architecture = ''decoupled_dain'',
                memory_limit = (if h = ''dedicated'' then PStr ''4G'' else PStr ''8G''),
                enable_dain_generation = True,
                constitutional_requirements =
                  dict_get d ''constitutional_requirements'' (PList []),
                generation_warnings = []\<rparr>"
proof -
  have "select_architecture (PStr h) (PStr ''advanced'') w (initial_parameters d) =
          Inr \<lparr>architecture = ''decoupled_dain'',
                memory_limit = (if h = ''dedicated'' then PStr ''4G'' else PStr ''8G''),
                enable_dain_generation = True,
                constitutional_requirements =
                  dict_get d ''constitutional_requirements'' (PList []),
                generation_warnings = []\<rparr>"
    using assms(2)
  proof
    assume "h = ''dedicated''"
    with assms(5) show ?thesis
      by (simp add: select_dedicated initial_parameters_def)
  next
    assume "h = ''cloud''"
    with assms(5) show ?thesis
      by (simp add: select_cloud initial_parameters_def)
  qed
  from process_diagnostic_input_success [OF assms(1,3,4) this assms(6)]
  show ?thesis by simp
qed

theorem plan_decoupled_dain_witness:
  "hardware_of (example_spec ''dedicated'' ''advanced'' True) = Inr (PStr ''dedicated'')
   \<and> tech_capacity_of (example_spec ''dedicated'' ''advanced'' True) = Inr (PStr ''advanced'')
   \<and> wants_ai_of (example_spec ''dedicated'' ''advanced'' True) = Inr (PBool True)
   \<and> truthy (PBool True)
   \<and> domain_of (example_spec ''dedicated'' ''advanced'' True) =
       Inr (PStr ''skyrim_modding_ecosystem'')
   \<and> fst (process_diagnostic_input (init_generator example_kernel)
            (example_spec ''dedicated'' ''advanced'' True)) =
       Inr \<lparr>architecture = ''decoupled_dain'', memory_limit = PStr ''4G'',
            enable_dain_generation = True, constitutional_requirements = PList [],
            generation_warnings = []\<rparr>
   \<and> fst (process_diagnostic_input (init_generator example_kernel)
            (example_spec ''cloud'' ''advanced'' True)) =
       Inr \<lparr>architecture = ''decoupled_dain'', memory_limit = PStr ''8G'',
            enable_dain_generation = True, constitutional_requirements = PList [],
            generation_warnings = []\<rparr>"
proof -
  have t: "truthy (PBool True)" by simp
  have a: "fst (process_diagnostic_input (init_generator example_kernel)
            (example_spec ''dedicated'' ''advanced'' True)) =
       Inr \<lparr>architecture = ''decoupled_dain'', memory_limit = PStr ''4G'',
            enable_dain_generation = True, constitutional_requirements = PList [],
            generation_warnings = []\<rparr>"
    using plan_decoupled_dain
            [OF example_spec_reads(1) _ example_spec_reads(2,3) t example_spec_reads(4),
             of "''dedicated''" "init_generator example_kernel"]
    by (simp add: example_spec_reads(5))
  have b: "fst (process_diagnostic_input (init_generator example_kernel)
            (example_spec ''cloud'' ''advanced'' True)) =
       Inr \<lparr>architecture = ''decoupled_dain'', memory_limit = PStr ''8G'',
            enable_dain_generation = True, constitutional_requirements = PList [],
            generation_warnings = []\<rparr>"
    using plan_decoupled_dain
            [OF example_spec_reads(1) _ example_spec_reads(2,3) t example_spec_reads(4),
             of "''cloud''" "init_generator example_kernel"]
    by (simp add: example_spec_reads(5))
  from a b t show ?thesis by (simp add: example_spec_reads)
qed

text \<open>
  Claim C7. For every domain specification whose hardware is none of
  \<^verbatim>\<open>raspberry_pi\<close>, \<^verbatim>\<open>desktop\<close>, \<^verbatim>\<open>dedicated\<close>, \<^verbatim>\<open>cloud\<close> (and which carries
  \<^verbatim>\<open>constraints.technical_capacity\<close> and \<^verbatim>\<open>context.domain\<close>, which the function reads),
  \<^verbatim>\<open>process_diagnostic_input\<close> raises nothing and returns the initial parameters:
  architecture \<^verbatim>\<open>two_node\<close>, memory limit \<^verbatim>\<open>None\<close>, \<^verbatim>\<open>enable_dain_generation\<close> false
  and no warnings, whatever the technical capacity and \<^verbatim>\<open>wants_ai_nodes\<close> are.
\<close>

theorem plan_unknown_hardware_default:
  assumes "hardware_of d = Inr h"
    and "h \<notin> {PStr ''raspberry_pi'', PStr ''desktop'', PStr ''dedicated'', PStr ''cloud''}"
    and "tech_capacity_of d = Inr t"
    and "wants_ai_of d = Inr w"
    and "domain_of d = Inr n"
  shows "fst (process_diagnostic_input self d) =
           Inr \<lparr>architecture = ''two_node'',
                memory_limit = PNone,
                enable_dain_generation = False,
                constitutional_requirements =
                  dict_get d ''constitutional_requirements'' (PList []),
                generation_warnings = []\<rparr>"
proof -
  from assms(2) have "select_architecture h t w (initial_parameters d) =
      Inr (initial_parameters d)"
    by (intro select_unknown) simp_all
  from process_diagnostic_input_success [OF assms(1,3,4) this assms(5)]
  show ?thesis by (simp add: initial_parameters_def)
qed

theorem plan_unknown_hardware_default_witness:
  "hardware_of (example_spec ''mainframe'' ''advanced'' True) = Inr (PStr ''mainframe'')
   \<and> PStr ''mainframe''
        \<notin> {PStr ''raspberry_pi'', PStr ''desktop'', PStr ''dedicated'', PStr ''cloud''}
   \<and> tech_capacity_of (example_spec ''mainframe'' ''advanced'' True) = Inr (PStr ''advanced'')
   \<and> wants_ai_of (example_spec ''mainframe'' ''advanced'' True) = Inr (PBool True)
   \<and> domain_of (example_spec ''mainframe'' ''advanced'' True) =
       Inr (PStr ''skyrim_modding_ecosystem'')
   \<and> fst (process_diagnostic_input (init_generator example_kernel)
            (example_spec ''mainframe'' ''advanced'' True)) =
       Inr \<lparr>architecture = ''two_node'', memory_limit = PNone,
            enable_dain_generation = False, constitutional_requirements = PList [],
            generation_warnings = []\<rparr>"
proof -
  have u: "PStr ''mainframe''
        \<notin> {PStr ''raspberry_pi'', PStr ''desktop'', PStr ''dedicated'', PStr ''cloud''}"
    by simp
  have a: "fst (process_diagnostic_input (init_generator example_kernel)
            (example_spec ''mainframe'' ''advanced'' True)) =
       Inr \<lparr>architecture = ''two_node'', memory_limit = PNone,
            enable_dain_generation = False, constitutional_requirements = PList [],
            generation_warnings = []\<rparr>"
    using plan_unknown_hardware_default
            [OF example_spec_reads(1) u example_spec_reads(2,3,4),
             of "init_generator example_kernel"]
    by (simp add: example_spec_reads(5))
  from a u show ?thesis by (simp add: example_spec_reads)
qed

lemma calculate_memory_limit_hashable:
  assumes "hashable v" and "v \<noteq> PStr ''raspberry_pi''" and "v \<noteq> PStr ''desktop''"
  shows "calculate_memory_limit v = Inr (PStr ''1G'')"
  using assms by (cases v) (simp_all add: limits_def dict_get_def)

lemma calculate_memory_limit_unhashable:
  assumes "\<not> hashable v"
  shows "calculate_memory_limit v = Inl TypeError"
  using assms by (cases v) simp_all

lemma spec_without_requests_reads:
  "hardware_of spec_without_requests = Inr (PStr ''desktop'')"
  "tech_capacity_of spec_without_requests = Inr (PStr ''basic'')"
  "wants_ai_of spec_without_requests = Inr (PBool False)"
  "domain_of spec_without_requests = Inr (PStr ''skyrim_modding_ecosystem'')"
  "dict_get spec_without_requests ''constitutional_requirements'' (PList []) = PList []"
  by (simp_all add: spec_without_requests_def hardware_of_def tech_capacity_of_def
        wants_ai_of_def domain_of_def subscript2_def dict_get_def)

text \<open>
  Claim C5, as stated, gives the warning of the two-node branch as
  \<^verbatim>\<open>DAIN generation disabled: requires dedicated hardware\<close>, and lets the lookup of the
  memory limit return \<^verbatim>\<open>1G\<close> for any other value. The source appends another string:
  on a \<^verbatim>\<open>desktop\<close> specification that wants AI nodes the list of warnings is not the
  list of the claim. And the lookup is \<^verbatim>\<open>limits.get(hardware_profile, '1G')\<close>, which
  raises \<^verbatim>\<open>TypeError\<close> on a value that cannot be hashed, such as the empty list.
\<close>

theorem plan_two_node_warning_text_counterexample:
  "fst (process_diagnostic_input (init_generator example_kernel)
          (example_spec ''desktop'' ''basic'' True)) =
     Inr \<lparr>architecture = ''two_node'', memory_limit = PStr ''6G'',
          enable_dain_generation = False, constitutional_requirements = PList [],
          generation_warnings =
            [''DAIN generation disabled: Requires dedicated hardware for constitutional compliance'']\<rparr>
   \<and> [''DAIN generation disabled: Requires dedicated hardware for constitutional compliance'']
       \<noteq> [''DAIN generation disabled: requires dedicated hardware'']
   \<and> calculate_memory_limit (PList []) = Inl TypeError
   \<and> calculate_memory_limit (PList []) \<noteq> Inr (PStr ''1G'')"
  by (simp add: process_diagnostic_input_def example_spec_reads select_desktop
        initial_parameters_def warning_dedicated_hardware_def)

text \<open>
  Claim C5, amended. For every domain specification whose hardware is \<^verbatim>\<open>raspberry_pi\<close>
  or \<^verbatim>\<open>desktop\<close> (and which carries \<^verbatim>\<open>constraints.technical_capacity\<close> and
  \<^verbatim>\<open>context.domain\<close>, which the function reads), \<^verbatim>\<open>process_diagnostic_input\<close> returns
  the architecture \<^verbatim>\<open>two_node\<close>, \<^verbatim>\<open>enable_dain_generation\<close> false, the memory limit
  of the table (\<^verbatim>\<open>3G\<close> for \<^verbatim>\<open>raspberry_pi\<close>, \<^verbatim>\<open>6G\<close> for \<^verbatim>\<open>desktop\<close>), and a list
  of warnings that holds exactly the string
  \<^verbatim>\<open>DAIN generation disabled: Requires dedicated hardware for constitutional compliance\<close>
  when \<^verbatim>\<open>wants_ai_nodes\<close> is true and is empty otherwise. The lookup
  \<^verbatim>\<open>_calculate_memory_limit\<close> returns \<^verbatim>\<open>1G\<close> for any other value that can be hashed
  (\<^verbatim>\<open>None\<close>, a boolean, an integer, any other string), and raises \<^verbatim>\<open>TypeError\<close> for
  a list or a dict.
\<close>

theorem plan_two_node:
  assumes "hardware_of d = Inr (PStr h)" and "h = ''raspberry_pi'' \<or> h = ''desktop''"
    and "tech_capacity_of d = Inr t"
    and "wants_ai_of d = Inr w"
    and "domain_of d = Inr n"
  shows "fst (process_diagnostic_input self d) =
           Inr \<lparr>architecture = ''two_node'',
                memory_limit = (if h = ''raspberry_pi'' then PStr ''3G'' else PStr ''6G''),
                enable_dain_generation = False,
                constitutional_requirements =
                  dict_get d ''constitutional_requirements'' (PList []),
                generation_warnings =
                  (if truthy w
                   then [''DAIN generation disabled: Requires dedicated hardware for constitutional compliance'']
                   else [])\<rparr>
         \<and> calculate_memory_limit (PStr ''raspberry_pi'') = Inr (PStr ''3G'')
         \<and> calculate_memory_limit (PStr ''desktop'') = Inr (PStr ''6G'')
         \<and> (\<forall>v. hashable v \<and> v \<noteq> PStr ''raspberry_pi'' \<and> v \<noteq> PStr ''desktop'' \<longrightarrow>
               calculate_memory_limit v = Inr (PStr ''1G''))
         \<and> (\<forall>v. \<not> hashable v \<longrightarrow> calculate_memory_limit v = Inl TypeError)"
proof -
  have "select_architecture (PStr h) t w (initial_parameters d) =
          Inr \<lparr>architecture = ''two_node'',
                memory_limit = (if h = ''raspberry_pi'' then PStr ''3G'' else PStr ''6G''),
                enable_dain_generation = False,
                constitutional_requirements =
                  dict_get d ''constitutional_requirements'' (PList []),
                generation_warnings =
                  (if truthy w
                   then [''DAIN generation disabled: Requires dedicated hardware for constitutional compliance'']
                   else [])\<rparr>"
    using assms(2)
  proof
    assume "h = ''raspberry_pi''"
    then show ?thesis
      by (simp add: select_raspberry_pi initial_parameters_def warning_dedicated_hardware_def)
  next
    assume "h = ''desktop''"
    then show ?thesis
      by (simp add: select_desktop initial_parameters_def warning_dedicated_hardware_def)
  qed
  from process_diagnostic_input_success [OF assms(1,3,4) this assms(5)]
  have plan: "fst (process_diagnostic_input self d) =
           Inr \<lparr>architecture = ''two_node'',
                memory_limit = (if h = ''raspberry_pi'' then PStr ''3G'' else PStr ''6G''),
                enable_dain_generation = False,
                constitutional_requirements =
                  dict_get d ''constitutional_requirements'' (PList []),
                generation_warnings =
                  (if truthy w
                   then [''DAIN generation disabled: Requires dedicated hardware for constitutional compliance'']
                   else [])\<rparr>"
    by simp
  have other: "\<forall>v. hashable v \<and> v \<noteq> PStr ''raspberry_pi'' \<and> v \<noteq> PStr ''desktop'' \<longrightarrow>
               calculate_memory_limit v = Inr (PStr ''1G'')"
    using calculate_memory_limit_hashable by blast
  have raises: "\<forall>v. \<not> hashable v \<longrightarrow> calculate_memory_limit v = Inl TypeError"
    using calculate_memory_limit_unhashable by blast
  from plan other raises calculate_memory_limit_table(1,2) show ?thesis by blast
qed

theorem plan_two_node_witness:
  "hardware_of (example_spec ''desktop'' ''basic'' True) = Inr (PStr ''desktop'')
   \<and> tech_capacity_of (example_spec ''desktop'' ''basic'' True) = Inr (PStr ''basic'')
   \<and> wants_ai_of (example_spec ''desktop'' ''basic'' True) = Inr (PBool True)
   \<and> domain_of (example_spec ''desktop'' ''basic'' True) =
       Inr (PStr ''skyrim_modding_ecosystem'')
   \<and> fst (process_diagnostic_input (init_generator example_kernel)
            (example_spec ''desktop'' ''basic'' True)) =
       Inr \<lparr>architecture = ''two_node'', memory_limit = PStr ''6G'',
            enable_dain_generation = False, constitutional_requirements = PList [],
            generation_warnings =
              [''DAIN generation disabled: Requires dedicated hardware for constitutional compliance'']\<rparr>
   \<and> fst (process_diagnostic_input (init_generator example_kernel)
            (example_spec ''raspberry_pi'' ''basic'' False)) =
       Inr \<lparr>architecture = ''two_node'', memory_limit = PStr ''3G'',
            enable_dain_generation = False, constitutional_requirements = PList [],
            generation_warnings = []\<rparr>
   \<and> wants_ai_of spec_without_requests = Inr (PBool False)
   \<and> fst (process_diagnostic_input (init_generator example_kernel) spec_without_requests) =
       Inr \<lparr>architecture = ''two_node'', memory_limit = PStr ''6G'',
            enable_dain_generation = False, constitutional_requirements = PList [],
            generation_warnings = []\<rparr>
   \<and> calculate_memory_limit (PStr ''cloud'') = Inr (PStr ''1G'')
   \<and> calculate_memory_limit PNone = Inr (PStr ''1G'')
   \<and> calculate_memory_limit (PBool True) = Inr (PStr ''1G'')
   \<and> calculate_memory_limit (PInt 8) = Inr (PStr ''1G'')
   \<and> calculate_memory_limit (PDict []) = Inl TypeError"
proof -
  note desktop = plan_two_node
            [OF example_spec_reads(1) _ example_spec_reads(2,3,4),
             of "''desktop''" "init_generator example_kernel" "''basic''" True]
  have a: "fst (process_diagnostic_input (init_generator example_kernel)
            (example_spec ''desktop'' ''basic'' True)) =
       Inr \<lparr>architecture = ''two_node'', memory_limit = PStr ''6G'',
            enable_dain_generation = False, constitutional_requirements = PList [],
            generation_warnings =
              [''DAIN generation disabled: Requires dedicated hardware for constitutional compliance'']\<rparr>"
    using desktop by (simp add: example_spec_reads(5))
  have b: "fst (process_diagnostic_input (init_generator example_kernel)
            (example_spec ''raspberry_pi'' ''basic'' False)) =
       Inr \<lparr>architecture = ''two_node'', memory_limit = PStr ''3G'',
            enable_dain_generation = False, constitutional_requirements = PList [],
            generation_warnings = []\<rparr>"
    using plan_two_node
            [OF example_spec_reads(1) _ example_spec_reads(2,3,4),
             of "''raspberry_pi''" "init_generator example_kernel"]
    by (simp add: example_spec_reads(5))
  have c: "fst (process_diagnostic_input (init_generator example_kernel)
            spec_without_requests) =
       Inr \<lparr>architecture = ''two_node'', memory_limit = PStr ''6G'',
            enable_dain_generation = False, constitutional_requirements = PList [],
            generation_warnings = []\<rparr>"
    using plan_two_node
            [OF spec_without_requests_reads(1) _ spec_without_requests_reads(2,3,4),
             of "init_generator example_kernel"]
    by (simp add: spec_without_requests_reads(5))
  have other: "\<forall>v. hashable v \<and> v \<noteq> PStr ''raspberry_pi'' \<and> v \<noteq> PStr ''desktop'' \<longrightarrow>
               calculate_memory_limit v = Inr (PStr ''1G'')"
    and raises: "\<forall>v. \<not> hashable v \<longrightarrow> calculate_memory_limit v = Inl TypeError"
    using desktop by simp_all
  have t1: "calculate_memory_limit (PStr ''cloud'') = Inr (PStr ''1G'')"
    using other [rule_format, of "PStr ''cloud''"] by simp
  have t2: "calculate_memory_limit PNone = Inr (PStr ''1G'')"
    using other [rule_format, of PNone] by simp
  have t3: "calculate_memory_limit (PBool True) = Inr (PStr ''1G'')"
    using other [rule_format, of "PBool True"] by simp
  have t4: "calculate_memory_limit (PInt 8) = Inr (PStr ''1G'')"
    using other [rule_format, of "PInt 8"] by simp
  have t5: "calculate_memory_limit (PDict []) = Inl TypeError"
    using raises [rule_format, of "PDict []"] by simp
  from a b c t1 t2 t3 t4 t5 show ?thesis
    by (simp add: example_spec_reads spec_without_requests_reads)
qed

text \<open>
  Claim C6, as stated, gives the warning of the branch \<^verbatim>\<open>decoupled_non_dain\<close> as
  \<^verbatim>\<open>DAIN generation disabled: requires advanced technical capacity\<close>. The source spells
  it with a capital R: on a \<^verbatim>\<open>dedicated\<close> specification of \<^verbatim>\<open>basic\<close> capacity that wants
  AI nodes the list of warnings is not the list of the claim.
\<close>

theorem plan_decoupled_non_dain_warning_text_counterexample:
  "fst (process_diagnostic_input (init_generator example_kernel)
          (example_spec ''dedicated'' ''basic'' True)) =
     Inr \<lparr>architecture = ''decoupled_non_dain'', memory_limit = PNone,
          enable_dain_generation = False, constitutional_requirements = PList [],
          generation_warnings =
            [''DAIN generation disabled: Requires advanced technical capacity'']\<rparr>
   \<and> [''DAIN generation disabled: Requires advanced technical capacity'']
       \<noteq> [''DAIN generation disabled: requires advanced technical capacity'']"
  by (simp add: process_diagnostic_input_def example_spec_reads select_dedicated
        initial_parameters_def warning_technical_capacity_def)

text \<open>
  Claim C6, amended. For every domain specification whose hardware is \<^verbatim>\<open>dedicated\<close> or
  \<^verbatim>\<open>cloud\<close> and which does not have both the technical capacity \<^verbatim>\<open>advanced\<close> and
  \<^verbatim>\<open>wants_ai_nodes\<close> true (and which carries \<^verbatim>\<open>constraints.technical_capacity\<close> and
  \<^verbatim>\<open>context.domain\<close>, which the function reads), \<^verbatim>\<open>process_diagnostic_input\<close> returns
  the architecture \<^verbatim>\<open>decoupled_non_dain\<close>, the memory limit \<^verbatim>\<open>None\<close>,
  \<^verbatim>\<open>enable_dain_generation\<close> false, and a list of warnings that holds exactly the string
  \<^verbatim>\<open>DAIN generation disabled: Requires advanced technical capacity\<close> when
  \<^verbatim>\<open>wants_ai_nodes\<close> is true and is empty otherwise.
\<close>

theorem plan_decoupled_non_dain:
  assumes "hardware_of d = Inr (PStr h)" and "h = ''dedicated'' \<or> h = ''cloud''"
    and "tech_capacity_of d = Inr t"
    and "wants_ai_of d = Inr w"
    and "\<not> (t = PStr ''advanced'' \<and> truthy w)"
    and "domain_of d = Inr n"
  shows "fst (process_diagnostic_input self d) =
           Inr \<lparr>architecture = ''decoupled_non_dain'',
                memory_limit = PNone,
                enable_dain_generation = False,
                constitutional_requirements =
                  dict_get d ''constitutional_requirements'' (PList []),
                generation_warnings =
                  (if truthy w
                   then [''DAIN generation disabled: Requires advanced technical capacity'']
                   else [])\<rparr>"
proof -
  have "select_architecture (PStr h) t w (initial_parameters d) =
          Inr \<lparr>architecture = ''decoupled_non_dain'',
                memory_limit = PNone,
                enable_dain_generation = False,
                constitutional_requirements =
                  dict_get d ''constitutional_requirements'' (PList []),
                generation_warnings =
                  (if truthy w
                   then [''DAIN generation disabled: Requires advanced technical capacity'']
                   else [])\<rparr>"
    using assms(2)
  proof
    assume "h = ''dedicated''"
    with assms(5) show ?thesis
      by (simp add: select_dedicated initial_parameters_def warning_technical_capacity_def)
  next
    assume "h = ''cloud''"
    with assms(5) show ?thesis
      by (simp add: select_cloud initial_parameters_def warning_technical_capacity_def)
  qed
  from process_diagnostic_input_success [OF assms(1,3,4) this assms(6)]
  show ?thesis by simp
qed

theorem plan_decoupled_non_dain_witness:
  "hardware_of (example_spec ''dedicated'' ''basic'' True) = Inr (PStr ''dedicated'')
   \<and> tech_capacity_of (example_spec ''dedicated'' ''basic'' True) = Inr (PStr ''basic'')
   \<and> wants_ai_of (example_spec ''dedicated'' ''basic'' True) = Inr (PBool True)
   \<and> \<not> (PStr ''basic'' = PStr ''advanced'' \<and> truthy (PBool True))
   \<and> domain_of (example_spec ''dedicated'' ''basic'' True) =
       Inr (PStr ''skyrim_modding_ecosystem'')
   \<and> fst (process_diagnostic_input (init_generator example_kernel)
            (example_spec ''dedicated'' ''basic'' True)) =
       Inr \<lparr>architecture = ''decoupled_non_dain'', memory_limit = PNone,
            enable_dain_generation = False, constitutional_requirements = PList [],
            generation_warnings =
              [''DAIN generation disabled: Requires advanced technical capacity'']\<rparr>
   \<and> fst (process_diagnostic_input (init_generator example_kernel)
            (example_spec ''cloud'' ''advanced'' False)) =
       Inr \<lparr>architecture = ''decoupled_non_dain'', memory_limit = PNone,
            enable_dain_generation = False, constitutional_requirements = PList [],
            generation_warnings = []\<rparr>"
proof -
  have n1: "\<not> (PStr ''basic'' = PStr ''advanced'' \<and> truthy (PBool True))" by simp
  have n2: "\<not> (PStr ''advanced'' = PStr ''advanced'' \<and> truthy (PBool False))" by simp
  have a: "fst (process_diagnostic_input (init_generator example_kernel)
            (example_spec ''dedicated'' ''basic'' True)) =
       Inr \<lparr>architecture = ''decoupled_non_dain'', memory_limit = PNone,
            enable_dain_generation = False, constitutional_requirements = PList [],
            generation_warnings =
              [''DAIN generation disabled: Requires advanced technical capacity'']\<rparr>"
    using plan_decoupled_non_dain
            [OF example_spec_reads(1) _ example_spec_reads(2,3) n1 example_spec_reads(4),
             of "''dedicated''" "init_generator example_kernel"]
    by (simp add: example_spec_reads(5))
  have b: "fst (process_diagnostic_input (init_generator example_kernel)
            (example_spec ''cloud'' ''advanced'' False)) =
       Inr \<lparr>architecture = ''decoupled_non_dain'', memory_limit = PNone,
            enable_dain_generation = False, constitutional_requirements = PList [],
            generation_warnings = []\<rparr>"
    using plan_decoupled_non_dain
            [OF example_spec_reads(1) _ example_spec_reads(2,3) n2 example_spec_reads(4),
             of "''cloud''" "init_generator example_kernel"]
    by (simp add: example_spec_reads(5))
  from a b n1 show ?thesis by (simp add: example_spec_reads)
qed

subsection \<open>\<^verbatim>\<open>generate_forge\<close>\<close>

lemma generate_forge_print_raises:
  "domain_of d = Inl e \<Longrightarrow> generate_forge repr self d = (Inl e, self)"
  by (simp add: generate_forge_def)

lemma generate_forge_plan_raises:
  assumes "domain_of d = Inr n" and "validate_domain_spec (kernel self) d = Inr b"
    and "process_diagnostic_input self d = (Inl e, self')"
  shows "generate_forge repr self d = (Inl e, self')"
  using assms by (simp add: generate_forge_def)

lemma validate_domain_spec_kernel:
  "validate_domain_spec k d = validate_domain_spec k' d"
  by (simp add: validate_domain_spec_def)

text \<open>
  Claim C3. For every domain specification that passes \<^verbatim>\<open>validate_domain_spec\<close>, whose
  \<^verbatim>\<open>constraints\<close> is a mapping and has no key \<^verbatim>\<open>technical_capacity\<close>,
  \<^verbatim>\<open>process_diagnostic_input\<close> raises \<^verbatim>\<open>KeyError('technical_capacity')\<close>, whatever the
  hardware is, and leaves the log as it was. \<^verbatim>\<open>generate_forge\<close> then raises a
  \<^verbatim>\<open>KeyError\<close> too, when \<^verbatim>\<open>context\<close> is a mapping: the one of \<^verbatim>\<open>technical_capacity\<close>,
  or, when \<^verbatim>\<open>context\<close> has no \<^verbatim>\<open>domain\<close>, the one of \<^verbatim>\<open>domain\<close> from its first
  statement. Neither raises \<^verbatim>\<open>ConstitutionalViolation\<close>.
\<close>

theorem missing_technical_capacity_raises_KeyError:
  assumes "validate_domain_spec k d = Inr True"
    and "field_is_mapping d ''constraints''"
    and "\<not> field_has_key d ''constraints'' ''technical_capacity''"
    and "field_is_mapping d ''context''"
  shows "process_diagnostic_input self d = (Inl (KeyError ''technical_capacity''), self)
       \<and> generate_forge repr self d =
           (Inl (KeyError (if field_has_key d ''context'' ''domain''
                           then ''technical_capacity'' else ''domain'')), self)"
proof -
  note passes = validate_domain_spec_passes [OF assms(2,1)]
  from hardware_of_present [OF passes(4)] obtain h where h: "hardware_of d = Inr h" ..
  have t: "tech_capacity_of d = Inl (KeyError ''technical_capacity'')"
    by (rule tech_capacity_of_missing [OF assms(2) passes(3) assms(3)])
  have plan: "process_diagnostic_input self d = (Inl (KeyError ''technical_capacity''), self)"
    by (rule process_diagnostic_input_no_capacity [OF h t])
  have v: "validate_domain_spec (kernel self) d = Inr True"
    using assms(1) validate_domain_spec_kernel [of k d "kernel self"] by simp
  have gen: "generate_forge repr self d =
           (Inl (KeyError (if field_has_key d ''context'' ''domain''
                           then ''technical_capacity'' else ''domain'')), self)"
  proof (cases "field_has_key d ''context'' ''domain''")
    case True
    with domain_of_mapping [OF assms(4) passes(2)] obtain n where "domain_of d = Inr n"
      by simp
    from generate_forge_plan_raises [OF this v plan] True show ?thesis by simp
  next
    case False
    with domain_of_mapping [OF assms(4) passes(2)]
    have "domain_of d = Inl (KeyError ''domain'')" by simp
    from generate_forge_print_raises [OF this] False show ?thesis by simp
  qed
  from plan gen show ?thesis ..
qed

theorem missing_technical_capacity_raises_KeyError_witness:
  "validate_domain_spec example_kernel spec_without_capacity = Inr True
   \<and> field_is_mapping spec_without_capacity ''constraints''
   \<and> \<not> field_has_key spec_without_capacity ''constraints'' ''technical_capacity''
   \<and> field_is_mapping spec_without_capacity ''context''
   \<and> hardware_of spec_without_capacity = Inr (PStr ''desktop'')
   \<and> process_diagnostic_input (init_generator example_kernel) spec_without_capacity =
       (Inl (KeyError ''technical_capacity''), init_generator example_kernel)
   \<and> generate_forge (\<lambda>v. []) (init_generator example_kernel) spec_without_capacity =
       (Inl (KeyError ''technical_capacity''), init_generator example_kernel)"
proof -
  have v: "validate_domain_spec example_kernel spec_without_capacity = Inr True"
    using validate_domain_spec_mapping [OF example_specs_shape(4), of example_kernel]
    by (simp add: spec_without_capacity_def has_key_def field_has_key_def)
  have c: "\<not> field_has_key spec_without_capacity ''constraints'' ''technical_capacity''"
    by (simp add: spec_without_capacity_def has_key_def field_has_key_def)
  have dm: "field_has_key spec_without_capacity ''context'' ''domain''"
    by (simp add: spec_without_capacity_def has_key_def field_has_key_def)
  have h: "hardware_of spec_without_capacity = Inr (PStr ''desktop'')"
    by (simp add: spec_without_capacity_def hardware_of_def subscript2_def)
  from missing_technical_capacity_raises_KeyError
         [OF v example_specs_shape(4) c example_specs_shape(5),
          of "init_generator example_kernel" "\<lambda>v. []"]
       v c h dm example_specs_shape(4,5)
  show ?thesis by simp
qed

text \<open>
  Claim C1 asks that \<^verbatim>\<open>generate_forge\<close> fail with \<^verbatim>\<open>ConstitutionalViolation\<close>, and
  with no other exception, on every specification that misses a required field. On the
  demonstration input without its \<^verbatim>\<open>context\<close> it does not: \<^verbatim>\<open>validate_domain_spec\<close>
  raises \<^verbatim>\<open>ConstitutionalViolation\<close> for the missing field, but \<^verbatim>\<open>generate_forge\<close>
  reads \<^verbatim>\<open>domain_spec['context']['domain']\<close> in its first statement, before it calls
  the validation, and raises \<^verbatim>\<open>KeyError('context')\<close>.
\<close>

theorem generate_forge_missing_context_raises_KeyError:
  "generate_forge repr self spec_without_context = (Inl (KeyError ''context''), self)
   \<and> validate_domain_spec (kernel self) spec_without_context =
       Inl (ConstitutionalViolation ''Missing required field: context'')"
proof -
  have "\<not> has_key spec_without_context ''context''"
    by (simp add: spec_without_context_def has_key_def)
  from generate_forge_print_raises [OF domain_of_missing_context [OF this]]
  have g: "generate_forge repr self spec_without_context = (Inl (KeyError ''context''), self)" .
  have v: "validate_domain_spec (kernel self) spec_without_context =
       Inl (ConstitutionalViolation ''Missing required field: context'')"
    using validate_domain_spec_mapping [OF example_specs_shape(2), of "kernel self"]
    by (simp add: spec_without_context_def has_key_def)
  from g v show ?thesis ..
qed

subsection \<open>\<^verbatim>\<open>_generate_forge_files\<close>\<close>

lemma generate_forge_files_non_dain:
  assumes "domain_of d = Inr n" and "architecture p \<noteq> ''decoupled_dain''"
  shows "generate_forge_files repr d p =
     Inr [py_str repr n @ ''/kernel.yml -> Constitutional kernel (git submodule)'',
          py_str repr n @ ''/domain_config.json -> Domain-specific configuration'',
          py_str repr n @ ''/docker-compose.yml -> Deployment configuration'',
          py_str repr n @ ''/constitutional_linter.py -> Rule enforcement system'',
          py_str repr n @ ''/README.md -> Usage instructions'']"
  using assms by (simp add: generate_forge_files_def)

lemma generate_forge_files_dain:
  assumes "domain_of d = Inr n" and "architecture p = ''decoupled_dain''"
  shows "generate_forge_files repr d p =
     Inr [py_str repr n @ ''/kernel.yml -> Constitutional kernel (git submodule)'',
          py_str repr n @ ''/domain_config.json -> Domain-specific configuration'',
          py_str repr n @ ''/docker-compose.yml -> Deployment configuration'',
          py_str repr n @ ''/constitutional_linter.py -> Rule enforcement system'',
          py_str repr n @ ''/README.md -> Usage instructions'',
          py_str repr n @ ''/docker-compose.dain.yml -> AI node deployment'',
          py_str repr n @ ''/dain_c_agent.py -> Constitutional audit AI'']"
  using assms by (simp add: generate_forge_files_def)

lemma generate_forge_files_pure:
  assumes "domain_of d = domain_of d'" and "architecture p = architecture p'"
  shows "generate_forge_files repr d p = generate_forge_files repr d' p'"
  using assms by (simp add: generate_forge_files_def split: sum.splits)

text \<open>
  Claim C8. \<^verbatim>\<open>_generate_forge_files\<close> depends on its arguments only through the domain name
  (\<^verbatim>\<open>context.domain\<close>) and the architecture. For a specification that carries a domain
  name it returns five entries when the architecture is not \<^verbatim>\<open>decoupled_dain\<close> and seven
  when it is; the first five of the seven are the five entries of the other case, and
  every entry starts with the domain name (as \<^verbatim>\<open>str\<close> renders it) followed by a slash.
\<close>

theorem generate_forge_files_count_and_prefix:
  assumes "domain_of d = Inr n"
  shows "\<exists>files.
           generate_forge_files repr d p = Inr files
         \<and> length files = (if architecture p = ''decoupled_dain'' then 7 else 5)
         \<and> (\<forall>p'. architecture p' \<noteq> ''decoupled_dain'' \<longrightarrow>
               generate_forge_files repr d p' = Inr (take 5 files))
         \<and> (\<forall>f \<in> set files. prefix (py_str repr n @ ''/'') f)
         \<and> (\<forall>d' p'. domain_of d' = Inr n \<and> architecture p' = architecture p \<longrightarrow>
               generate_forge_files repr d' p' = Inr files)"
proof (cases "architecture p = ''decoupled_dain''")
  case True
  let ?files = "[py_str repr n @ ''/kernel.yml -> Constitutional kernel (git submodule)'',
          py_str repr n @ ''/domain_config.json -> Domain-specific configuration'',
          py_str repr n @ ''/docker-compose.yml -> Deployment configuration'',
          py_str repr n @ ''/constitutional_linter.py -> Rule enforcement system'',
          py_str repr n @ ''/README.md -> Usage instructions'',
          py_str repr n @ ''/docker-compose.dain.yml -> AI node deployment'',
          py_str repr n @ ''/dain_c_agent.py -> Constitutional audit AI'']"
  have r: "generate_forge_files repr d p = Inr ?files"
    by (rule generate_forge_files_dain [OF assms True])
  have len: "length ?files = (if architecture p = ''decoupled_dain'' then 7 else 5)"
    using True by simp
  have first: "\<forall>p'. architecture p' \<noteq> ''decoupled_dain'' \<longrightarrow>
               generate_forge_files repr d p' = Inr (take 5 ?files)"
    by (simp add: generate_forge_files_non_dain [OF assms])
  have pre: "\<forall>f \<in> set ?files. prefix (py_str repr n @ ''/'') f"
    by simp
  have pure: "\<forall>d' p'. domain_of d' = Inr n \<and> architecture p' = architecture p \<longrightarrow>
               generate_forge_files repr d' p' = Inr ?files"
    using r assms generate_forge_files_pure [of _ d _ p repr] by metis
  from r len first pre pure show ?thesis by blast
next
  case False
  let ?files = "[py_str repr n @ ''/kernel.yml -> Constitutional kernel (git submodule)'',
          py_str repr n @ ''/domain_config.json -> Domain-specific configuration'',
          py_str repr n @ ''/docker-compose.yml -> Deployment configuration'',
          py_str repr n @ ''/constitutional_linter.py -> Rule enforcement system'',
          py_str repr n @ ''/README.md -> Usage instructions'']"
  have r: "generate_forge_files repr d p = Inr ?files"
    by (rule generate_forge_files_non_dain [OF assms False])
  have len: "length ?files = (if architecture p = ''decoupled_dain'' then 7 else 5)"
    using False by simp
  have first: "\<forall>p'. architecture p' \<noteq> ''decoupled_dain'' \<longrightarrow>
               generate_forge_files repr d p' = Inr (take 5 ?files)"
    by (simp add: generate_forge_files_non_dain [OF assms])
  have pre: "\<forall>f \<in> set ?files. prefix (py_str repr n @ ''/'') f"
    by simp
  have pure: "\<forall>d' p'. domain_of d' = Inr n \<and> architecture p' = architecture p \<longrightarrow>
               generate_forge_files repr d' p' = Inr ?files"
    using r assms generate_forge_files_pure [of _ d _ p repr] by metis
  from r len first pre pure show ?thesis by blast
qed


theorem generate_forge_files_count_and_prefix_witness:
  "domain_of (example_spec ''cloud'' ''advanced'' True) = Inr (PStr ''skyrim_modding_ecosystem'')
   \<and> generate_forge_files (\<lambda>v. []) (example_spec ''cloud'' ''advanced'' True)
         \<lparr>architecture = ''decoupled_dain'', memory_limit = PStr ''8G'',
          enable_dain_generation = True, constitutional_requirements = PList [],
          generation_warnings = []\<rparr> =
       Inr [''skyrim_modding_ecosystem/kernel.yml -> Constitutional kernel (git submodule)'',
            ''skyrim_modding_ecosystem/domain_config.json -> Domain-specific configuration'',
            ''skyrim_modding_ecosystem/docker-compose.yml -> Deployment configuration'',
            ''skyrim_modding_ecosystem/constitutional_linter.py -> Rule enforcement system'',
            ''skyrim_modding_ecosystem/README.md -> Usage instructions'',
            ''skyrim_modding_ecosystem/docker-compose.dain.yml -> AI node deployment'',
            ''skyrim_modding_ecosystem/dain_c_agent.py -> Constitutional audit AI'']
   \<and> generate_forge_files (\<lambda>v. []) (example_spec ''cloud'' ''advanced'' True)
         \<lparr>architecture = ''two_node'', memory_limit = PStr ''6G'',
          enable_dain_generation = False, constitutional_requirements = PList [],
          generation_warnings = []\<rparr> =
       Inr [''skyrim_modding_ecosystem/kernel.yml -> Constitutional kernel (git submodule)'',
            ''skyrim_modding_ecosystem/domain_config.json -> Domain-specific configuration'',
            ''skyrim_modding_ecosystem/docker-compose.yml -> Deployment configuration'',
            ''skyrim_modding_ecosystem/constitutional_linter.py -> Rule enforcement system'',
            ''skyrim_modding_ecosystem/README.md -> Usage instructions'']"
proof -
  let ?d = "example_spec ''cloud'' ''advanced'' True"
  let ?dain = "\<lparr>architecture = ''decoupled_dain'', memory_limit = PStr ''8G'',
          enable_dain_generation = True, constitutional_requirements = PList [],
          generation_warnings = []\<rparr>"
  let ?two = "\<lparr>architecture = ''two_node'', memory_limit = PStr ''6G'',
          enable_dain_generation = False, constitutional_requirements = PList [],
          generation_warnings = []\<rparr>"
  have seven: "generate_forge_files (\<lambda>v. []) ?d ?dain =
       Inr [''skyrim_modding_ecosystem/kernel.yml -> Constitutional kernel (git submodule)'',
            ''skyrim_modding_ecosystem/domain_config.json -> Domain-specific configuration'',
            ''skyrim_modding_ecosystem/docker-compose.yml -> Deployment configuration'',
            ''skyrim_modding_ecosystem/constitutional_linter.py -> Rule enforcement system'',
            ''skyrim_modding_ecosystem/README.md -> Usage instructions'',
            ''skyrim_modding_ecosystem/docker-compose.dain.yml -> AI node deployment'',
            ''skyrim_modding_ecosystem/dain_c_agent.py -> Constitutional audit AI'']"
    by (simp add: generate_forge_files_dain [OF example_spec_reads(4)])
  from generate_forge_files_count_and_prefix
         [OF example_spec_reads(4), of "\<lambda>v. []" "''cloud''" "''advanced''" True ?dain]
  obtain files where
    f: "generate_forge_files (\<lambda>v. []) ?d ?dain = Inr files"
    and five: "\<forall>p'. architecture p' \<noteq> ''decoupled_dain'' \<longrightarrow>
               generate_forge_files (\<lambda>v. []) ?d p' = Inr (take 5 files)"
    by blast
  from f seven have files: "files =
           [''skyrim_modding_ecosystem/kernel.yml -> Constitutional kernel (git submodule)'',
            ''skyrim_modding_ecosystem/domain_config.json -> Domain-specific configuration'',
            ''skyrim_modding_ecosystem/docker-compose.yml -> Deployment configuration'',
            ''skyrim_modding_ecosystem/constitutional_linter.py -> Rule enforcement system'',
            ''skyrim_modding_ecosystem/README.md -> Usage instructions'',
            ''skyrim_modding_ecosystem/docker-compose.dain.yml -> AI node deployment'',
            ''skyrim_modding_ecosystem/dain_c_agent.py -> Constitutional audit AI'']"
    by simp
  from five have "generate_forge_files (\<lambda>v. []) ?d ?two = Inr (take 5 files)"
    by simp
  then have "generate_forge_files (\<lambda>v. []) ?d ?two =
       Inr [''skyrim_modding_ecosystem/kernel.yml -> Constitutional kernel (git submodule)'',
            ''skyrim_modding_ecosystem/domain_config.json -> Domain-specific configuration'',
            ''skyrim_modding_ecosystem/docker-compose.yml -> Deployment configuration'',
            ''skyrim_modding_ecosystem/constitutional_linter.py -> Rule enforcement system'',
            ''skyrim_modding_ecosystem/README.md -> Usage instructions'']"
    unfolding files by simp
  with seven show ?thesis
    by (simp add: example_spec_reads(4))
qed

subsection \<open>The generation log\<close>

lemma process_diagnostic_input_result:
  "fst (process_diagnostic_input self d) = fst (process_diagnostic_input self' d)"
  by (simp add: process_diagnostic_input_def split: sum.splits)

lemma process_diagnostic_input_log:
  assumes "fst (process_diagnostic_input self0 d) = Inr p"
  shows "\<exists>n. domain_of d = Inr n
           \<and> process_diagnostic_input self d =
               (Inr p, self\<lparr>generation_log := generation_log self @ [log_entry n p]\<rparr>)"
proof -
  from assms process_diagnostic_input_result [of self d self0]
  have "fst (process_diagnostic_input self d) = Inr p" by simp
  with process_diagnostic_input_cases [of self d] show ?thesis by auto
qed

lemma process_diagnostic_input_raises:
  assumes "process_diagnostic_input self d = (Inl e, self')"
  shows "self' = self"
  using process_diagnostic_input_cases [of self d] assms by auto

lemma generate_forge_success:
  assumes "generate_forge repr self d = (Inr r, self')"
  shows "\<exists>p. process_diagnostic_input self d = (Inr p, self')"
  using assms
  by (simp add: generate_forge_def split: sum.splits prod.splits)

lemma process_all_log:
  assumes "\<forall>d \<in> set ds. \<exists>p. fst (process_diagnostic_input self0 d) = Inr p"
  shows "\<exists>es. generation_log (process_all self ds) = generation_log self @ es
           \<and> list_all2 (\<lambda>d e. \<exists>n p. domain_of d = Inr n
                     \<and> fst (process_diagnostic_input self0 d) = Inr p \<and> e = log_entry n p)
                 ds es"
  using assms
proof (induction ds arbitrary: self)
  case Nil
  then show ?case by simp
next
  case (Cons d ds)
  from Cons.prems obtain p where p: "fst (process_diagnostic_input self0 d) = Inr p"
    by auto
  from process_diagnostic_input_log [OF p, of self] obtain n where
    n: "domain_of d = Inr n"
    and step: "process_diagnostic_input self d =
        (Inr p, self\<lparr>generation_log := generation_log self @ [log_entry n p]\<rparr>)"
    by blast
  let ?next = "self\<lparr>generation_log := generation_log self @ [log_entry n p]\<rparr>"
  from Cons.prems have "\<forall>d \<in> set ds. \<exists>p. fst (process_diagnostic_input self0 d) = Inr p"
    by simp
  from Cons.IH [OF this, of ?next] obtain es where
    es: "generation_log (process_all ?next ds) = generation_log ?next @ es"
    and rel: "list_all2 (\<lambda>d e. \<exists>n p. domain_of d = Inr n
                     \<and> fst (process_diagnostic_input self0 d) = Inr p \<and> e = log_entry n p)
                 ds es"
    by blast
  have "generation_log (process_all self (d # ds)) = generation_log self @ (log_entry n p # es)"
    using step es by simp
  moreover have "list_all2 (\<lambda>d e. \<exists>n p. domain_of d = Inr n
                     \<and> fst (process_diagnostic_input self0 d) = Inr p \<and> e = log_entry n p)
                 (d # ds) (log_entry n p # es)"
    using rel n p by simp
  ultimately show ?case by blast
qed

lemma generate_forge_files_returns:
  assumes "domain_of d = Inr n"
  shows "\<exists>files. generate_forge_files repr d p = Inr files"
  using assms by (simp add: generate_forge_files_def Let_def)

lemma generate_forge_raises:
  assumes "generate_forge repr self d = (Inl e, self')"
  shows "self' = self"
proof (cases "domain_of d")
  case (Inl e')
  with assms show ?thesis by (simp add: generate_forge_def)
next
  case (Inr n)
  note dom = this
  show ?thesis
  proof (cases "validate_domain_spec (kernel self) d")
    case (Inl e')
    with assms dom show ?thesis by (simp add: generate_forge_def)
  next
    case (Inr b)
    note val = this
    from process_diagnostic_input_cases [of self d]
    show ?thesis
    proof
      assume "\<exists>e'. process_diagnostic_input self d = (Inl e', self)"
      then obtain e' where "process_diagnostic_input self d = (Inl e', self)" ..
      with assms dom val show ?thesis by (simp add: generate_forge_def)
    next
      assume "\<exists>h t w p n. hardware_of d = Inr h \<and> tech_capacity_of d = Inr t
         \<and> wants_ai_of d = Inr w
         \<and> select_architecture h t w (initial_parameters d) = Inr p \<and> domain_of d = Inr n
         \<and> process_diagnostic_input self d =
             (Inr p, self\<lparr>generation_log := generation_log self @ [log_entry n p]\<rparr>)"
      then obtain p m where "process_diagnostic_input self d =
             (Inr p, self\<lparr>generation_log := generation_log self @ [log_entry m p]\<rparr>)"
        by blast
      moreover from generate_forge_files_returns [OF dom, of repr p]
      obtain files where "generate_forge_files repr d p = Inr files" ..
      ultimately show ?thesis
        using assms dom val by (simp add: generate_forge_def)
    qed
  qed
qed

lemma generate_forge_succeeds:
  assumes "domain_of d = Inr n" and "validate_domain_spec (kernel self) d = Inr b"
    and "process_diagnostic_input self d = (Inr p, self')"
  shows "\<exists>r. generate_forge repr self d = (Inr r, self')"
proof -
  from generate_forge_files_returns [OF assms(1), of repr p]
  obtain files where "generate_forge_files repr d p = Inr files" ..
  with assms show ?thesis by (simp add: generate_forge_def)
qed

lemma named_spec_reads:
  "hardware_of (named_spec name h c a) = Inr (PStr h)"
  "tech_capacity_of (named_spec name h c a) = Inr (PStr c)"
  "wants_ai_of (named_spec name h c a) = Inr (PBool a)"
  "domain_of (named_spec name h c a) = Inr (PStr name)"
  "dict_get (named_spec name h c a) ''constitutional_requirements'' (PList []) = PList []"
  "dict_get (named_spec name h c a) ''success_metrics'' (PList []) = PList []"
  "validate_domain_spec k (named_spec name h c a) = Inr True"
  by (simp_all add: named_spec_def hardware_of_def tech_capacity_of_def wants_ai_of_def
        domain_of_def subscript2_def dict_get_def validate_domain_spec_def
        required_fields_def has_key_def)

text \<open>
  Claim C9. The generation log is the attribute \<^verbatim>\<open>generation_log\<close> of the generator,
  empty after \<^verbatim>\<open>__init__\<close>. A call of \<^verbatim>\<open>process_diagnostic_input\<close> that returns
  parameters appends exactly one entry to it, the dict of the domain name, the
  architecture, \<^verbatim>\<open>enable_dain_generation\<close> (under the key \<^verbatim>\<open>dain_enabled\<close>) and the
  warnings of the returned parameters, and leaves the entries before it as they were; a
  call that raises leaves the generator as it was. \<^verbatim>\<open>generate_forge\<close> succeeds whenever
  its validation passes and its call of \<^verbatim>\<open>process_diagnostic_input\<close> returns
  parameters; a successful \<^verbatim>\<open>generate_forge\<close> has appended exactly the entry of that
  call, and one that raises leaves the generator as it was. After a sequence of accepted
  specifications the log is the old log followed by one entry per specification, in the
  order of the calls, so a fresh generator has exactly as many entries as calls.
\<close>

theorem generation_log_append_only:
  "(process_diagnostic_input self d = (Inr p, self') \<longrightarrow>
      (\<exists>n. domain_of d = Inr n
         \<and> generation_log self' = generation_log self @
             [PDict [(''domain'', n),
                     (''architecture'', PStr (architecture p)),
                     (''dain_enabled'', PBool (enable_dain_generation p)),
                     (''warnings'', PList (map PStr (generation_warnings p)))]]))
   \<and> (process_diagnostic_input self d = (Inl e, self') \<longrightarrow> self' = self)
   \<and> (domain_of d = Inr m \<and> validate_domain_spec (kernel self) d = Inr b
        \<and> process_diagnostic_input self d = (Inr p, self') \<longrightarrow>
      (\<exists>r. generate_forge repr self d = (Inr r, self')))
   \<and> (generate_forge repr self d = (Inr r, self'') \<longrightarrow>
      (\<exists>n q. domain_of d = Inr n \<and> process_diagnostic_input self d = (Inr q, self'')
         \<and> generation_log self'' = generation_log self @
             [PDict [(''domain'', n),
                     (''architecture'', PStr (architecture q)),
                     (''dain_enabled'', PBool (enable_dain_generation q)),
                     (''warnings'', PList (map PStr (generation_warnings q)))]]))
   \<and> (generate_forge repr self d = (Inl e, self'') \<longrightarrow> self'' = self)
   \<and> ((\<forall>d \<in> set ds. \<exists>p. fst (process_diagnostic_input self d) = Inr p) \<longrightarrow>
      (\<exists>es. generation_log (process_all self ds) = generation_log self @ es
         \<and> length es = length ds
         \<and> list_all2 (\<lambda>d e. \<exists>n p. domain_of d = Inr n
                   \<and> fst (process_diagnostic_input self d) = Inr p
                   \<and> e = PDict [(''domain'', n),
                                (''architecture'', PStr (architecture p)),
                                (''dain_enabled'', PBool (enable_dain_generation p)),
                                (''warnings'', PList (map PStr (generation_warnings p)))])
               ds es)
      \<and> length (generation_log (process_all (init_generator k) ds)) = length ds)"
proof -
  have one: "process_diagnostic_input self d = (Inr p, self') \<longrightarrow>
      (\<exists>n. domain_of d = Inr n
         \<and> generation_log self' = generation_log self @
             [PDict [(''domain'', n),
                     (''architecture'', PStr (architecture p)),
                     (''dain_enabled'', PBool (enable_dain_generation p)),
                     (''warnings'', PList (map PStr (generation_warnings p)))]])"
  proof
    assume run: "process_diagnostic_input self d = (Inr p, self')"
    then have "fst (process_diagnostic_input self d) = Inr p" by simp
    from process_diagnostic_input_log [OF this, of self] run
    show "\<exists>n. domain_of d = Inr n
         \<and> generation_log self' = generation_log self @
             [PDict [(''domain'', n),
                     (''architecture'', PStr (architecture p)),
                     (''dain_enabled'', PBool (enable_dain_generation p)),
                     (''warnings'', PList (map PStr (generation_warnings p)))]]"
      by (auto simp: log_entry_def)
  qed
  have two: "process_diagnostic_input self d = (Inl e, self') \<longrightarrow> self' = self"
    using process_diagnostic_input_raises by blast
  have three: "domain_of d = Inr m \<and> validate_domain_spec (kernel self) d = Inr b
        \<and> process_diagnostic_input self d = (Inr p, self') \<longrightarrow>
      (\<exists>r. generate_forge repr self d = (Inr r, self'))"
    using generate_forge_succeeds by blast
  have four: "generate_forge repr self d = (Inr r, self'') \<longrightarrow>
      (\<exists>n q. domain_of d = Inr n \<and> process_diagnostic_input self d = (Inr q, self'')
         \<and> generation_log self'' = generation_log self @
             [PDict [(''domain'', n),
                     (''architecture'', PStr (architecture q)),
                     (''dain_enabled'', PBool (enable_dain_generation q)),
                     (''warnings'', PList (map PStr (generation_warnings q)))]])"
  proof
    assume "generate_forge repr self d = (Inr r, self'')"
    from generate_forge_success [OF this] obtain q where
      run: "process_diagnostic_input self d = (Inr q, self'')" ..
    then have q: "fst (process_diagnostic_input self d) = Inr q" by simp
    from process_diagnostic_input_log [OF q, of self] run
    show "\<exists>n q. domain_of d = Inr n \<and> process_diagnostic_input self d = (Inr q, self'')
         \<and> generation_log self'' = generation_log self @
             [PDict [(''domain'', n),
                     (''architecture'', PStr (architecture q)),
                     (''dain_enabled'', PBool (enable_dain_generation q)),
                     (''warnings'', PList (map PStr (generation_warnings q)))]]"
      by (auto simp: log_entry_def)
  qed
  have five: "generate_forge repr self d = (Inl e, self'') \<longrightarrow> self'' = self"
    using generate_forge_raises by blast
  have six: "(\<forall>d \<in> set ds. \<exists>p. fst (process_diagnostic_input self d) = Inr p) \<longrightarrow>
      (\<exists>es. generation_log (process_all self ds) = generation_log self @ es
         \<and> length es = length ds
         \<and> list_all2 (\<lambda>d e. \<exists>n p. domain_of d = Inr n
                   \<and> fst (process_diagnostic_input self d) = Inr p
                   \<and> e = PDict [(''domain'', n),
                                (''architecture'', PStr (architecture p)),
                                (''dain_enabled'', PBool (enable_dain_generation p)),
                                (''warnings'', PList (map PStr (generation_warnings p)))])
               ds es)
      \<and> length (generation_log (process_all (init_generator k) ds)) = length ds"
  proof
    assume acc: "\<forall>d \<in> set ds. \<exists>p. fst (process_diagnostic_input self d) = Inr p"
    from process_all_log [OF acc, of self] obtain es where
      es: "generation_log (process_all self ds) = generation_log self @ es"
      and rel: "list_all2 (\<lambda>d e. \<exists>n p. domain_of d = Inr n
                   \<and> fst (process_diagnostic_input self d) = Inr p \<and> e = log_entry n p)
               ds es"
      by blast
    from rel have len: "length es = length ds"
      by (simp add: list_all2_lengthD)
    from rel have rel2: "list_all2 (\<lambda>d e. \<exists>n p. domain_of d = Inr n
                   \<and> fst (process_diagnostic_input self d) = Inr p
                   \<and> e = PDict [(''domain'', n),
                                (''architecture'', PStr (architecture p)),
                                (''dain_enabled'', PBool (enable_dain_generation p)),
                                (''warnings'', PList (map PStr (generation_warnings p)))])
               ds es"
      by (simp add: log_entry_def)
    from process_all_log [OF acc, of "init_generator k"] obtain es' where
      es': "generation_log (process_all (init_generator k) ds) =
              generation_log (init_generator k) @ es'"
      and rel': "list_all2 (\<lambda>d e. \<exists>n p. domain_of d = Inr n
                   \<and> fst (process_diagnostic_input self d) = Inr p \<and> e = log_entry n p)
               ds es'"
      by blast
    from rel' have "length es' = length ds"
      by (simp add: list_all2_lengthD)
    with es' have fresh: "length (generation_log (process_all (init_generator k) ds)) = length ds"
      by (simp add: init_generator_def)
    from es len rel2 fresh
    show "(\<exists>es. generation_log (process_all self ds) = generation_log self @ es
         \<and> length es = length ds
         \<and> list_all2 (\<lambda>d e. \<exists>n p. domain_of d = Inr n
                   \<and> fst (process_diagnostic_input self d) = Inr p
                   \<and> e = PDict [(''domain'', n),
                                (''architecture'', PStr (architecture p)),
                                (''dain_enabled'', PBool (enable_dain_generation p)),
                                (''warnings'', PList (map PStr (generation_warnings p)))])
               ds es)
      \<and> length (generation_log (process_all (init_generator k) ds)) = length ds"
      by blast
  qed
  from one two three four five six show ?thesis by blast
qed

theorem generation_log_append_only_witness:
  "process_diagnostic_input (init_generator example_kernel)
       (named_spec ''alpha'' ''desktop'' ''basic'' True) =
     (Inr \<lparr>architecture = ''two_node'', memory_limit = PStr ''6G'',
           enable_dain_generation = False, constitutional_requirements = PList [],
           generation_warnings =
             [''DAIN generation disabled: Requires dedicated hardware for constitutional compliance'']\<rparr>,
      \<lparr>kernel = example_kernel,
       generation_log =
         [PDict [(''domain'', PStr ''alpha''),
                 (''architecture'', PStr ''two_node''),
                 (''dain_enabled'', PBool False),
                 (''warnings'', PList [PStr
                    ''DAIN generation disabled: Requires dedicated hardware for constitutional compliance''])]]\<rparr>)
   \<and> generate_forge (\<lambda>v. [])
        \<lparr>kernel = example_kernel,
         generation_log =
           [PDict [(''domain'', PStr ''alpha''),
                   (''architecture'', PStr ''two_node''),
                   (''dain_enabled'', PBool False),
                   (''warnings'', PList [PStr
                      ''DAIN generation disabled: Requires dedicated hardware for constitutional compliance''])]]\<rparr>
        (named_spec ''beta'' ''cloud'' ''advanced'' True) =
     (Inr (PDict
        [(''domain'', PStr ''beta''),
         (''generated_date'', PStr ''2024-01-15''),
         (''architecture'', PStr ''decoupled_dain''),
         (''constitutional_compliance'', PStr ''verified''),
         (''files_generated'', PList
            [PStr ''beta/kernel.yml -> Constitutional kernel (git submodule)'',
             PStr ''beta/domain_config.json -> Domain-specific configuration'',
             PStr ''beta/docker-compose.yml -> Deployment configuration'',
             PStr ''beta/constitutional_linter.py -> Rule enforcement system'',
             PStr ''beta/README.md -> Usage instructions'',
             PStr ''beta/docker-compose.dain.yml -> AI node deployment'',
             PStr ''beta/dain_c_agent.py -> Constitutional audit AI'']),
         (''success_metrics'', PList []),
         (''warnings'', PList [])]),
      \<lparr>kernel = example_kernel,
       generation_log =
         [PDict [(''domain'', PStr ''alpha''),
                 (''architecture'', PStr ''two_node''),
                 (''dain_enabled'', PBool False),
                 (''warnings'', PList [PStr
                    ''DAIN generation disabled: Requires dedicated hardware for constitutional compliance''])],
          PDict [(''domain'', PStr ''beta''),
                 (''architecture'', PStr ''decoupled_dain''),
                 (''dain_enabled'', PBool True),
                 (''warnings'', PList [])]]\<rparr>)
   \<and> generation_log (process_all (init_generator example_kernel)
        [named_spec ''alpha'' ''desktop'' ''basic'' True,
         named_spec ''beta'' ''cloud'' ''advanced'' True,
         named_spec ''gamma'' ''dedicated'' ''basic'' True]) =
       [PDict [(''domain'', PStr ''alpha''),
               (''architecture'', PStr ''two_node''),
               (''dain_enabled'', PBool False),
               (''warnings'', PList [PStr
                  ''DAIN generation disabled: Requires dedicated hardware for constitutional compliance''])],
        PDict [(''domain'', PStr ''beta''),
               (''architecture'', PStr ''decoupled_dain''),
               (''dain_enabled'', PBool True),
               (''warnings'', PList [])],
        PDict [(''domain'', PStr ''gamma''),
               (''architecture'', PStr ''decoupled_non_dain''),
               (''dain_enabled'', PBool False),
               (''warnings'', PList [PStr
                  ''DAIN generation disabled: Requires advanced technical capacity''])]]
   \<and> length (generation_log (process_all (init_generator example_kernel)
        [named_spec ''alpha'' ''desktop'' ''basic'' True,
         named_spec ''beta'' ''cloud'' ''advanced'' True,
         named_spec ''gamma'' ''dedicated'' ''basic'' True])) = 3
   \<and> process_diagnostic_input
        \<lparr>kernel = example_kernel,
         generation_log =
           [PDict [(''domain'', PStr ''alpha''),
                   (''architecture'', PStr ''two_node''),
                   (''dain_enabled'', PBool False),
                   (''warnings'', PList [PStr
                      ''DAIN generation disabled: Requires dedicated hardware for constitutional compliance''])]]\<rparr>
        spec_without_capacity =
     (Inl (KeyError ''technical_capacity''),
      \<lparr>kernel = example_kernel,
       generation_log =
         [PDict [(''domain'', PStr ''alpha''),
                 (''architecture'', PStr ''two_node''),
                 (''dain_enabled'', PBool False),
                 (''warnings'', PList [PStr
                    ''DAIN generation disabled: Requires dedicated hardware for constitutional compliance''])]]\<rparr>)"
proof -
  let ?G = "init_generator example_kernel"
  let ?a = "named_spec ''alpha'' ''desktop'' ''basic'' True"
  let ?b = "named_spec ''beta'' ''cloud'' ''advanced'' True"
  let ?c = "named_spec ''gamma'' ''dedicated'' ''basic'' True"
  let ?Ea = "PDict [(''domain'', PStr ''alpha''),
                 (''architecture'', PStr ''two_node''),
                 (''dain_enabled'', PBool False),
                 (''warnings'', PList [PStr
                    ''DAIN generation disabled: Requires dedicated hardware for constitutional compliance''])]"
  let ?Eb = "PDict [(''domain'', PStr ''beta''),
                 (''architecture'', PStr ''decoupled_dain''),
                 (''dain_enabled'', PBool True),
                 (''warnings'', PList [])]"
  let ?Ec = "PDict [(''domain'', PStr ''gamma''),
               (''architecture'', PStr ''decoupled_non_dain''),
               (''dain_enabled'', PBool False),
               (''warnings'', PList [PStr
                  ''DAIN generation disabled: Requires advanced technical capacity''])]"
  let ?G1 = "\<lparr>kernel = example_kernel, generation_log = [?Ea]\<rparr>"
  let ?G2 = "\<lparr>kernel = example_kernel, generation_log = [?Ea, ?Eb]\<rparr>"
  let ?G3 = "\<lparr>kernel = example_kernel, generation_log = [?Ea, ?Eb, ?Ec]\<rparr>"
  let ?Pa = "\<lparr>architecture = ''two_node'', memory_limit = PStr ''6G'',
           enable_dain_generation = False, constitutional_requirements = PList [],
           generation_warnings =
             [''DAIN generation disabled: Requires dedicated hardware for constitutional compliance'']\<rparr>"
  let ?Pb = "\<lparr>architecture = ''decoupled_dain'', memory_limit = PStr ''8G'',
           enable_dain_generation = True, constitutional_requirements = PList [],
           generation_warnings = []\<rparr>"
  let ?Pc = "\<lparr>architecture = ''decoupled_non_dain'', memory_limit = PNone,
           enable_dain_generation = False, constitutional_requirements = PList [],
           generation_warnings =
             [''DAIN generation disabled: Requires advanced technical capacity'']\<rparr>"
  have run_a: "process_diagnostic_input ?G ?a = (Inr ?Pa, ?G1)"
    by (simp add: process_diagnostic_input_def named_spec_reads select_desktop
          initial_parameters_def log_entry_def init_generator_def
          warning_dedicated_hardware_def)
  have run_b: "process_diagnostic_input ?G1 ?b = (Inr ?Pb, ?G2)"
    by (simp add: process_diagnostic_input_def named_spec_reads select_cloud
          initial_parameters_def log_entry_def)
  have run_c: "process_diagnostic_input ?G2 ?c = (Inr ?Pc, ?G3)"
    by (simp add: process_diagnostic_input_def named_spec_reads select_dedicated
          initial_parameters_def log_entry_def warning_technical_capacity_def)
  have files_b: "generate_forge_files (\<lambda>v. []) ?b ?Pb =
       Inr [''beta/kernel.yml -> Constitutional kernel (git submodule)'',
            ''beta/domain_config.json -> Domain-specific configuration'',
            ''beta/docker-compose.yml -> Deployment configuration'',
            ''beta/constitutional_linter.py -> Rule enforcement system'',
            ''beta/README.md -> Usage instructions'',
            ''beta/docker-compose.dain.yml -> AI node deployment'',
            ''beta/dain_c_agent.py -> Constitutional audit AI'']"
    by (simp add: generate_forge_files_dain [OF named_spec_reads(4)])
  have forge_b: "generate_forge (\<lambda>v. []) ?G1 ?b =
     (Inr (PDict
        [(''domain'', PStr ''beta''),
         (''generated_date'', PStr ''2024-01-15''),
         (''architecture'', PStr ''decoupled_dain''),
         (''constitutional_compliance'', PStr ''verified''),
         (''files_generated'', PList
            [PStr ''beta/kernel.yml -> Constitutional kernel (git submodule)'',
             PStr ''beta/domain_config.json -> Domain-specific configuration'',
             PStr ''beta/docker-compose.yml -> Deployment configuration'',
             PStr ''beta/constitutional_linter.py -> Rule enforcement system'',
             PStr ''beta/README.md -> Usage instructions'',
             PStr ''beta/docker-compose.dain.yml -> AI node deployment'',
             PStr ''beta/dain_c_agent.py -> Constitutional audit AI'']),
         (''success_metrics'', PList []),
         (''warnings'', PList [])]), ?G2)"
    by (simp add: generate_forge_def named_spec_reads run_b files_b)
  have fails: "process_diagnostic_input ?G1 spec_without_capacity =
     (Inl (KeyError ''technical_capacity''), ?G1)"
    by (simp add: process_diagnostic_input_def spec_without_capacity_def hardware_of_def
          tech_capacity_of_def subscript2_def)
  have log: "generation_log (process_all ?G [?a, ?b, ?c]) = [?Ea, ?Eb, ?Ec]"
    by (simp add: run_a run_b run_c)
  have acc: "\<forall>d \<in> set [?a, ?b, ?c]. \<exists>p. fst (process_diagnostic_input ?G1 d) = Inr p"
    using run_a process_diagnostic_input_result [of ?G1 ?a ?G] run_b
      process_diagnostic_input_result [of ?G1 ?c ?G2] run_c
    by simp
  note inst = generation_log_append_only
         [of ?G1 ?b ?Pb ?G2 _ _ _ "\<lambda>v. []" _ ?G2 "[?a, ?b, ?c]" example_kernel]
  note forge_entry =
    inst [THEN conjunct2, THEN conjunct2, THEN conjunct2, THEN conjunct1, THEN mp, OF forge_b]
  note sequence =
    inst [THEN conjunct2, THEN conjunct2, THEN conjunct2, THEN conjunct2, THEN conjunct2,
          THEN mp, OF acc, THEN conjunct2]
  from forge_entry sequence run_a forge_b log fails show ?thesis by simp
qed

end
